theory Spec2Isabelle
  imports Main "HOL-Library.Sublist" "HOL-Library.Multiset"
begin

section \<open>Python values used by bdaysync\<close>

text \<open>
  The program is Python. Exceptions are values: a computation that can raise has the
  type \<open>py_error + 'a\<close>, with \<open>Inl\<close> the exception that was raised. Strings are
  sequences of bytes, the UTF-8 form of the text. Where Python works on code points
  (\<^verbatim>\<open>lower\<close>, \<^verbatim>\<open>strip\<close>, \<^verbatim>\<open>int\<close>, \<^verbatim>\<open>isdigit\<close>, the digits of a
  replacement field), the model computes the result for a text that is all ASCII and takes
  the result for any other text from a parameter, which stands for what Python does there.
  Every theorem holds for every value of these parameters.
\<close>

datatype py_error =
  KeyError | ValueError | AttributeError | IndexError | TypeError | OverflowError

subsection \<open>Strings\<close>

definition is_ascii :: "char \<Rightarrow> bool" where
  "is_ascii c = (\<not> digit7 c)"

definition ascii_text :: "string \<Rightarrow> bool" where
  "ascii_text s = list_all is_ascii s"

text \<open>
  \<^verbatim>\<open>str.lower()\<close>: on an ASCII text the letters A to Z are lowered; \<open>lx\<close> is
  Python's result on a text that has other characters.
\<close>

definition lower_char :: "char \<Rightarrow> char" where
  "lower_char c =
     (case map_of (zip ''ABCDEFGHIJKLMNOPQRSTUVWXYZ'' ''abcdefghijklmnopqrstuvwxyz'') c of
        None \<Rightarrow> c
      | Some d \<Rightarrow> d)"

definition py_lower :: "(string \<Rightarrow> string) \<Rightarrow> string \<Rightarrow> string" where
  "py_lower lx s = (if ascii_text s then map lower_char s else lx s)"

text \<open>
  \<^verbatim>\<open>str.replace(old, new)\<close>: the occurrences of \<open>old\<close> are found from the left
  and do not overlap; with an empty \<open>old\<close>, \<open>new\<close> is put around every character.
\<close>

fun py_replace :: "string \<Rightarrow> string \<Rightarrow> string \<Rightarrow> string" where
  "py_replace old new [] = (if old = [] then new else [])"
| "py_replace old new (c # cs) =
     (if old = [] then new @ c # py_replace old new cs
      else if prefix old (c # cs) then new @ py_replace old new (drop (length old) (c # cs))
      else c # py_replace old new cs)"

text \<open>
  \<^verbatim>\<open>a in b\<close> on strings is \<^term>\<open>sublist a b\<close> and \<^verbatim>\<open>b.startswith(a)\<close> is
  \<^term>\<open>prefix a b\<close>.
\<close>

text \<open>\<^verbatim>\<open>str(n)\<close> for an integer: the decimal digits, with a minus sign when negative.\<close>

definition digit_char :: "nat \<Rightarrow> char" where
  "digit_char d = ''0123456789'' ! (d mod 10)"

function digits_of :: "nat \<Rightarrow> string" where
  "digits_of n = (if n < 10 then [digit_char n] else digits_of (n div 10) @ [digit_char (n mod 10)])"
  by pat_completeness auto
termination
  by (relation "measure id") auto

declare digits_of.simps [simp del]

definition py_str_int :: "int \<Rightarrow> string" where
  "py_str_int i = (if i < 0 then CHR ''-'' # digits_of (nat (- i)) else digits_of (nat i))"

datatype py_val = PStr string | PInt int

fun py_str :: "py_val \<Rightarrow> string" where
  "py_str (PStr s) = s"
| "py_str (PInt i) = py_str_int i"

subsection \<open>\<^verbatim>\<open>str.format\<close> with keyword arguments only\<close>

text \<open>
  The program renders its templates with \<^verbatim>\<open>template.format(name=..., days=...)\<close>:
  no positional argument is ever passed. The formatter reads the template from the left;
  the first error it meets is the one raised.
  \<^item> \<^verbatim>\<open>{{\<close> and \<^verbatim>\<open>}}\<close> are the literal braces; a single \<^verbatim>\<open>}\<close>, or a \<^verbatim>\<open>{\<close>
    that is never closed, is a \<open>ValueError\<close>, and so is a \<^verbatim>\<open>{\<close> inside a field name;
  \<^item> a replacement field whose text is empty or a decimal number asks for a positional
    argument: \<open>IndexError\<close>, as there is none (\<open>ValueError\<close> when the number does not
    fit \<^verbatim>\<open>Py_ssize_t\<close>, here 64 bits);
  \<^item> any other field text is looked up among the keyword arguments: \<open>KeyError\<close> when
    absent, else \<^verbatim>\<open>str\<close> of the value;
  \<^item> a replacement field that uses attribute access, indexing, a conversion or a format
    specification (one of \<^verbatim>\<open>. [ ! :\<close> before its closing brace), or whose text has a
    character beyond ASCII (it may be a decimal digit of another script), is rendered by
    the part of Python's formatter that is not modelled here: from such a field on, the
    result is what the parameter \<open>fx\<close> gives for the rest of the template. Every theorem
    below holds for every \<open>fx\<close>.
\<close>

type_synonym kwargs = "(string \<times> py_val) list"

type_synonym formatter = "string \<Rightarrow> kwargs \<Rightarrow> py_error + string"

datatype field_scan = Simple string string | Malformed | Extended

fun scan_field :: "string \<Rightarrow> field_scan" where
  "scan_field [] = Malformed"
| "scan_field (c # cs) =
     (if c = CHR ''}'' then Simple [] cs
      else if c = CHR ''{'' then Malformed
      else if c \<in> set ''.[!:'' \<or> \<not> is_ascii c then Extended
      else (case scan_field cs of
              Simple f r \<Rightarrow> Simple (c # f) r
            | Malformed \<Rightarrow> Malformed
            | Extended \<Rightarrow> Extended))"

text \<open>The value of an ASCII digit; it is applied to ASCII text only.\<close>

definition digit_val :: "char \<Rightarrow> int option" where
  "digit_val c = map_of (zip ''0123456789'' [0, 1, 2, 3, 4, 5, 6, 7, 8, 9]) c"

definition PY_SSIZE_T_MAX :: int where
  "PY_SSIZE_T_MAX = 2 ^ 63 - 1"

fun get_integer :: "int \<Rightarrow> string \<Rightarrow> py_error + int option" where
  "get_integer acc [] = Inr (Some acc)"
| "get_integer acc (c # cs) =
     (case digit_val c of
        None \<Rightarrow> Inr None
      | Some d \<Rightarrow>
          if acc > (PY_SSIZE_T_MAX - d) div 10 then Inl ValueError
          else get_integer (acc * 10 + d) cs)"

definition get_field :: "string \<Rightarrow> kwargs \<Rightarrow> py_error + string" where
  "get_field f kw =
     (if f = [] then Inl IndexError
      else (case get_integer 0 f of
              Inl e \<Rightarrow> Inl e
            | Inr (Some n) \<Rightarrow> Inl IndexError
            | Inr None \<Rightarrow>
                (case map_of kw f of
                   None \<Rightarrow> Inl KeyError
                 | Some v \<Rightarrow> Inr (py_str v))))"

definition emit :: "string \<Rightarrow> py_error + string \<Rightarrow> py_error + string" where
  "emit s r = (case r of Inl e \<Rightarrow> Inl e | Inr out \<Rightarrow> Inr (s @ out))"

function py_format :: "formatter \<Rightarrow> string \<Rightarrow> kwargs \<Rightarrow> py_error + string" where
  "py_format fx [] kw = Inr []"
| "py_format fx [c] kw =
     (if c = CHR ''{'' \<or> c = CHR ''}'' then Inl ValueError else Inr [c])"
| "py_format fx (c # d # ds) kw =
     (if c = CHR ''}'' then
        (if d = CHR ''}'' then emit [c] (py_format fx ds kw) else Inl ValueError)
      else if c = CHR ''{'' then
        (if d = CHR ''{'' then emit [c] (py_format fx ds kw)
         else (case scan_field (d # ds) of
                 Malformed \<Rightarrow> Inl ValueError
               | Extended \<Rightarrow> fx (c # d # ds) kw
               | Simple f r \<Rightarrow>
                   (case get_field f kw of
                      Inl e \<Rightarrow> Inl e
                    | Inr v \<Rightarrow> emit v (py_format fx r kw))))
      else emit [c] (py_format fx (d # ds) kw))"
  by pat_completeness auto
termination
proof -
  have shorter: "scan_field s = Simple f r \<Longrightarrow> length r < length s" for s f r
    by (induction s arbitrary: f r) (auto split: if_splits field_scan.splits)
  show ?thesis
  proof (relation "measure (\<lambda>(fx, s, kw). length s)", goal_cases)
    case (4 fx c d ds kw f r v)
    then show ?case using shorter [of "d # ds" f r] by simp
  qed simp_all
qed

section \<open>Configuration (\<^verbatim>\<open>config.py\<close>, \<^verbatim>\<open>CalDAVClient._load_config\<close>)\<close>

record birthday_config =
  event_title_template :: string
  event_description_template :: string
  reminder_days :: "int list"
  reminder_template :: string
  event_category :: string
  update_existing :: bool

section \<open>Reminder messages (\<^verbatim>\<open>CalDAVClient._format_reminder_message\<close>)\<close>

definition reminder_kwargs :: "string \<Rightarrow> int \<Rightarrow> kwargs" where
  "reminder_kwargs name days_before = [(''name'', PStr name), (''days'', PInt days_before)]"

text \<open>The body of the \<^verbatim>\<open>try\<close> block.\<close>

definition render_reminder :: "formatter \<Rightarrow> birthday_config \<Rightarrow> string \<Rightarrow> int \<Rightarrow> py_error + string" where
  "render_reminder fx cfg name days_before =
     (if days_before = 0 then
        (if sublist ''{days}'' (reminder_template cfg) then
           (case py_format fx (reminder_template cfg) (reminder_kwargs name days_before) of
              Inl e \<Rightarrow> Inl e
            | Inr message \<Rightarrow>
                Inr (py_replace ''is in today'' ''is today''
                      (py_replace ''in 0 day'' ''today''
                        (py_replace ''in 0 days'' ''today'' message))))
         else Inr (''Today is '' @ name @ '''s birthday!''))
      else if days_before = 1 then
        (case py_format fx (reminder_template cfg) (reminder_kwargs name days_before) of
           Inl e \<Rightarrow> Inl e
         | Inr message \<Rightarrow> Inr (py_replace ''1 days'' ''1 day'' message))
      else py_format fx (reminder_template cfg) (reminder_kwargs name days_before))"

text \<open>The three fixed phrases of the \<^verbatim>\<open>except\<close> block.\<close>

definition fallback_message :: "string \<Rightarrow> int \<Rightarrow> string" where
  "fallback_message name days_before =
     (if days_before = 0 then ''Today is '' @ name @ '''s birthday!''
      else if days_before = 1 then ''Tomorrow is '' @ name @ '''s birthday!''
      else name @ '''s birthday is in '' @ py_str_int days_before @ '' days!'')"

text \<open>\<^verbatim>\<open>except (KeyError, ValueError, AttributeError)\<close>\<close>

definition caught_by_reminder :: "py_error \<Rightarrow> bool" where
  "caught_by_reminder e = (e = KeyError \<or> e = ValueError \<or> e = AttributeError)"

definition format_reminder_message :: "formatter \<Rightarrow> birthday_config \<Rightarrow> string \<Rightarrow> int \<Rightarrow> py_error + string" where
  "format_reminder_message fx cfg name days_before =
     (case render_reminder fx cfg name days_before of
        Inr message \<Rightarrow> Inr message
      | Inl e \<Rightarrow>
          if caught_by_reminder e then Inr (fallback_message name days_before)
          else Inl e)"

section \<open>Dates (\<^verbatim>\<open>datetime.date\<close>)\<close>

record date =
  dt_year :: int
  dt_month :: int
  dt_day :: int

definition is_leap :: "int \<Rightarrow> bool" where
  "is_leap y = (y mod 4 = 0 \<and> (y mod 100 \<noteq> 0 \<or> y mod 400 = 0))"

definition days_in_month :: "int \<Rightarrow> int \<Rightarrow> int" where
  "days_in_month y m =
     (if m = 2 then (if is_leap y then 29 else 28)
      else if m = 4 \<or> m = 6 \<or> m = 9 \<or> m = 11 then 30
      else 31)"

text \<open>\<^verbatim>\<open>date(y, m, d)\<close> raises \<open>ValueError\<close> outside the calendar; years are 1 to 9999.\<close>

definition make_date :: "int \<Rightarrow> int \<Rightarrow> int \<Rightarrow> py_error + date" where
  "make_date y m d =
     (if 1 \<le> y \<and> y \<le> 9999 \<and> 1 \<le> m \<and> m \<le> 12 \<and> 1 \<le> d \<and> d \<le> days_in_month y m
      then Inr \<lparr>dt_year = y, dt_month = m, dt_day = d\<rparr>
      else Inl ValueError)"

text \<open>\<^verbatim>\<open>birthday.replace(year=year)\<close>\<close>

definition replace_year :: "date \<Rightarrow> int \<Rightarrow> py_error + date" where
  "replace_year b y = make_date y (dt_month b) (dt_day b)"

text \<open>\<^verbatim>\<open>date + timedelta(days=1)\<close>: \<open>OverflowError\<close> after 9999-12-31.\<close>

definition add_one_day :: "date \<Rightarrow> py_error + date" where
  "add_one_day dt =
     (if dt_day dt < days_in_month (dt_year dt) (dt_month dt) then Inr (dt\<lparr>dt_day := dt_day dt + 1\<rparr>)
      else if dt_month dt < 12 then Inr (dt\<lparr>dt_month := dt_month dt + 1, dt_day := 1\<rparr>)
      else if dt_year dt < 9999 then Inr \<lparr>dt_year = dt_year dt + 1, dt_month = 1, dt_day = 1\<rparr>
      else Inl OverflowError)"

definition zero_pad :: "nat \<Rightarrow> string \<Rightarrow> string" where
  "zero_pad w s = replicate (w - length s) (CHR ''0'') @ s"

text \<open>
  \<^verbatim>\<open>date.strftime('%Y%m%d')\<close>. The month and the day have two digits. A year from 1000
  on has its four digits; for a year below 1000 the C library decides: \<open>pads\<close> says
  whether it fills the year with zeros to four digits (the C library of Linux does not).
\<close>

definition strftime_Ymd :: "bool \<Rightarrow> date \<Rightarrow> string" where
  "strftime_Ymd pads dt =
     (if 1000 \<le> dt_year dt \<or> pads then zero_pad 4 (digits_of (nat (dt_year dt)))
      else digits_of (nat (dt_year dt))) @
     zero_pad 2 (digits_of (nat (dt_month dt))) @
     zero_pad 2 (digits_of (nat (dt_day dt)))"

section \<open>Calendar events (\<^verbatim>\<open>caldav_client.py\<close>)\<close>

text \<open>
  A contact as \<^verbatim>\<open>CardDAVClient._parse_vcard\<close> returns it: a dictionary that always has
  the keys \<^verbatim>\<open>name\<close> and \<^verbatim>\<open>birthday\<close>.
\<close>

record contact =
  name :: string
  birthday :: date

text \<open>
  The trigger of an alarm is a \<^verbatim>\<open>timedelta\<close>, of which the program reads the
  \<^verbatim>\<open>days\<close> attribute only, or an absolute date-time. \<^verbatim>\<open>timedelta(days=n)\<close> raises
  \<open>OverflowError\<close> beyond 999999999 days.
\<close>

datatype trigger_value = Timedelta int | Absolute_time

definition timedelta_days :: "int \<Rightarrow> py_error + trigger_value" where
  "timedelta_days n = (if \<bar>n\<bar> \<le> 999999999 then Inr (Timedelta n) else Inl OverflowError)"

record valarm =
  action :: string
  trigger :: "trigger_value option"
  alarm_description :: "string option"

text \<open>
  A VEVENT as \<^verbatim>\<open>vobject\<close> presents it: a property that the event does not have
  (\<^verbatim>\<open>hasattr\<close> false) is \<open>None\<close>.
\<close>

record vevent =
  uid :: "string option"
  dtstart :: date
  dtend :: date
  all_day :: bool
  summary :: "string option"
  description :: "string option"
  categories :: "string list option"
  rrule :: "string option"
  valarm_list :: "valarm list"

text \<open>
  What the program takes from outside its own code, in one record: the parts of the Python
  library that the model does not compute, and the behaviour of the CalDAV server.
  \<^item> \<open>format_ext\<close>: \<^verbatim>\<open>str.format\<close> from an extended replacement field on;
  \<^item> \<open>lower_ext\<close>, \<open>strip_ext\<close>, \<open>int_ext\<close>: \<^verbatim>\<open>str.lower\<close>, \<^verbatim>\<open>str.strip\<close>
    and \<^verbatim>\<open>int\<close> on a text that is not all ASCII;
  \<^item> \<open>birthday_ext\<close>: the parsing of a BDAY value that is not all ASCII;
  \<^item> \<open>text_ext\<close>: what is read back for a text property that was written with a
    control character in it, with a space at either end, or empty;
  \<^item> \<open>pads_year\<close>: whether \<^verbatim>\<open>strftime\<close> fills a year below 1000 with zeros;
  \<^item> \<open>range_ext\<close>: whether the time-range query of a day returns an event, given its
    start, its end, whether it is an all-day event, and its recurrence rule, when the
    event is not an all-day event that starts on the day or has a yearly instance on it.
\<close>

record platform =
  format_ext :: formatter
  lower_ext :: "string \<Rightarrow> string"
  strip_ext :: "string \<Rightarrow> string"
  int_ext :: "string \<Rightarrow> py_error + int"
  birthday_ext :: "string \<Rightarrow> date option"
  text_ext :: "string \<Rightarrow> string"
  pads_year :: bool
  range_ext :: "date \<Rightarrow> date \<Rightarrow> bool \<Rightarrow> string option \<Rightarrow> date \<Rightarrow> bool"

text \<open>
  The calendar on the CalDAV server is the sequence of the events it stores, each as
  \<^verbatim>\<open>vobject.readOne\<close> reads it back; an event is addressed by its position. The server
  is taken to answer: transport failures of the sink are not part of the model.
\<close>

type_synonym calendar = "vevent list"

text \<open>
  The program writes an event with \<^verbatim>\<open>cal.serialize()\<close> and reads it with
  \<^verbatim>\<open>vobject.readOne\<close>. A text comes back as it was written when it is plain: not empty,
  without control character, without a space at either end. Any other text comes back as
  \<open>text_ext\<close> says (a carriage return, for one, is read back as a line feed).
\<close>

definition is_control :: "char \<Rightarrow> bool" where
  "is_control c = ((\<not> digit5 c \<and> \<not> digit6 c \<and> \<not> digit7 c) \<or> c = CHR 0x7F)"

definition plain_text :: "string \<Rightarrow> bool" where
  "plain_text s =
     (s \<noteq> [] \<and> \<not> list_ex is_control s \<and> hd s \<noteq> CHR '' '' \<and> last s \<noteq> CHR '' '')"

definition stored_text :: "platform \<Rightarrow> string \<Rightarrow> string" where
  "stored_text pl s = (if plain_text s then s else text_ext pl s)"

definition stored_alarm :: "platform \<Rightarrow> valarm \<Rightarrow> valarm" where
  "stored_alarm pl a = a\<lparr>alarm_description := map_option (stored_text pl) (alarm_description a)\<rparr>"

text \<open>
  The time-range query of one day: it returns, in the order of the store, the all-day
  events that start on that day, the all-day events with the rule \<^verbatim>\<open>FREQ=YEARLY\<close>
  that started on the same day of an earlier year (every event that the program writes is
  such an event), and what \<open>range_ext\<close> adds. The answer depends on the times and the
  rule of an event only, not on its texts.
\<close>

definition in_range :: "platform \<Rightarrow> vevent \<Rightarrow> date \<Rightarrow> bool" where
  "in_range pl ev d =
     ((all_day ev \<and>
       (dtstart ev = d \<or>
        (rrule ev = Some ''FREQ=YEARLY'' \<and> dt_month (dtstart ev) = dt_month d \<and>
         dt_day (dtstart ev) = dt_day d \<and> dt_year (dtstart ev) \<le> dt_year d))) \<or>
      range_ext pl (dtstart ev) (dtend ev) (all_day ev) (rrule ev) d)"

definition search :: "platform \<Rightarrow> calendar \<Rightarrow> date \<Rightarrow> (nat \<times> vevent) list" where
  "search pl cal d = filter (\<lambda>(i, ev). in_range pl ev d) (enumerate 0 cal)"

text \<open>\<^verbatim>\<open>f"birthday-{name.replace(' ', '-').lower()}"\<close>\<close>

definition expected_uid :: "platform \<Rightarrow> string \<Rightarrow> string" where
  "expected_uid pl nm = ''birthday-'' @ py_lower (lower_ext pl) (py_replace '' '' ''-'' nm)"

text \<open>
  The test of one event in the loop of \<^verbatim>\<open>_find_existing_event\<close>. Both checks stand
  under \<^verbatim>\<open>if hasattr(cal.vevent, 'summary')\<close>.
\<close>

definition summary_matches :: "platform \<Rightarrow> birthday_config \<Rightarrow> string \<Rightarrow> string \<Rightarrow> bool" where
  "summary_matches pl cfg nm s =
     (sublist nm s \<and>
      (sublist (py_lower (lower_ext pl) (event_category cfg)) (py_lower (lower_ext pl) s) \<or>
       sublist ''birthday'' (py_lower (lower_ext pl) s)))"

definition event_matches :: "platform \<Rightarrow> birthday_config \<Rightarrow> string \<Rightarrow> vevent \<Rightarrow> bool" where
  "event_matches pl cfg nm ev =
     (case summary ev of
        None \<Rightarrow> False
      | Some s \<Rightarrow>
          if summary_matches pl cfg nm s then True
          else (case uid ev of
                  None \<Rightarrow> False
                | Some u \<Rightarrow> prefix (expected_uid pl nm) u))"

fun first_match ::
    "platform \<Rightarrow> birthday_config \<Rightarrow> string \<Rightarrow> (nat \<times> vevent) list \<Rightarrow> (nat \<times> vevent) option" where
  "first_match pl cfg nm [] = None"
| "first_match pl cfg nm (e # es) =
     (if event_matches pl cfg nm (snd e) then Some e else first_match pl cfg nm es)"

text \<open>
  \<^verbatim>\<open>_find_existing_event\<close>. When \<^verbatim>\<open>date + timedelta(days=1)\<close> overflows, the query
  and its fallback both raise and the result is \<^verbatim>\<open>None\<close>.
\<close>

definition find_existing_event ::
    "platform \<Rightarrow> birthday_config \<Rightarrow> calendar \<Rightarrow> string \<Rightarrow> date \<Rightarrow> (nat \<times> vevent) option" where
  "find_existing_event pl cfg cal nm d =
     (case add_one_day d of
        Inl e \<Rightarrow> None
      | Inr next_day \<Rightarrow> first_match pl cfg nm (search pl cal d))"

text \<open>The loop that adds one alarm per reminder day; it stops at the first exception.\<close>

fun build_alarms :: "formatter \<Rightarrow> birthday_config \<Rightarrow> string \<Rightarrow> int list \<Rightarrow> py_error + valarm list" where
  "build_alarms fx cfg nm [] = Inr []"
| "build_alarms fx cfg nm (days_before # rest) =
     (case timedelta_days (- days_before) of
        Inl e \<Rightarrow> Inl e
      | Inr tr \<Rightarrow>
          (case format_reminder_message fx cfg nm days_before of
             Inl e \<Rightarrow> Inl e
           | Inr reminder_message \<Rightarrow>
               (case build_alarms fx cfg nm rest of
                  Inl e \<Rightarrow> Inl e
                | Inr alarms \<Rightarrow>
                    Inr (\<lparr>action = ''DISPLAY'', trigger = Some tr,
                          alarm_description = Some reminder_message\<rparr> # alarms))))"

text \<open>
  What a call of \<^verbatim>\<open>create_birthday_event\<close> did. The method returns \<^verbatim>\<open>True\<close> after
  a create or an update, and \<^verbatim>\<open>False\<close> when the event exists and updates are off, when no
  update is needed, and when an exception was caught.
\<close>

datatype outcome = Created | Updated | Already_exists | No_update_needed | Failed py_error

fun returned :: "outcome \<Rightarrow> bool" where
  "returned Created = True"
| "returned Updated = True"
| "returned Already_exists = False"
| "returned No_update_needed = False"
| "returned (Failed e) = False"

fun skipped :: "outcome \<Rightarrow> bool" where
  "skipped Already_exists = True"
| "skipped No_update_needed = True"
| "skipped other = False"

text \<open>The reminder days read back from the alarms of an event.\<close>

fun current_reminders :: "valarm list \<Rightarrow> int list" where
  "current_reminders [] = []"
| "current_reminders (a # as) =
     (case trigger a of
        Some (Timedelta days) \<Rightarrow> \<bar>days\<bar> # current_reminders as
      | Some Absolute_time \<Rightarrow> current_reminders as
      | None \<Rightarrow> current_reminders as)"

definition current_title :: "vevent \<Rightarrow> string" where
  "current_title ev = (case summary ev of Some s \<Rightarrow> s | None \<Rightarrow> [])"

definition current_description :: "vevent \<Rightarrow> string" where
  "current_description ev = (case description ev of Some s \<Rightarrow> s | None \<Rightarrow> [])"

text \<open>The check \<^verbatim>\<open># Check if update is needed\<close> of \<^verbatim>\<open>_update_existing_event\<close>.\<close>

definition update_needed :: "birthday_config \<Rightarrow> vevent \<Rightarrow> string \<Rightarrow> string \<Rightarrow> bool" where
  "update_needed cfg ev new_title new_description =
     (\<not> (current_title ev = new_title \<and> current_description ev = new_description \<and>
          sort (current_reminders (valarm_list ev)) = sort (reminder_days cfg)))"

text \<open>
  The event after \<^verbatim>\<open># Update event properties\<close>, as it is read back once saved: the
  other properties are kept.
\<close>

definition updated_event ::
    "platform \<Rightarrow> birthday_config \<Rightarrow> vevent \<Rightarrow> string \<Rightarrow> string \<Rightarrow> valarm list \<Rightarrow> vevent" where
  "updated_event pl cfg ev new_title new_description alarms =
     ev\<lparr>summary := Some (stored_text pl new_title),
        description := Some (stored_text pl new_description),
        categories := Some [stored_text pl (event_category cfg)],
        valarm_list := map (stored_alarm pl) alarms\<rparr>"

definition update_existing_event ::
    "platform \<Rightarrow> birthday_config \<Rightarrow> calendar \<Rightarrow> nat \<times> vevent \<Rightarrow> contact \<Rightarrow> int \<Rightarrow> string \<Rightarrow> string
      \<Rightarrow> outcome \<times> calendar" where
  "update_existing_event pl cfg cal existing_event c yr new_title new_description =
     (case replace_year (birthday c) yr of
        Inl e \<Rightarrow> (Failed e, cal)
      | Inr event_date \<Rightarrow>
          if \<not> update_needed cfg (snd existing_event) new_title new_description
          then (No_update_needed, cal)
          else (case build_alarms (format_ext pl) cfg (name c) (reminder_days cfg) of
                  Inl e \<Rightarrow> (Failed e, cal)
                | Inr alarms \<Rightarrow>
                    (Updated,
                     cal[fst existing_event :=
                           updated_event pl cfg (snd existing_event) new_title new_description
                             alarms])))"

text \<open>
  \<^verbatim>\<open>f"birthday-{name.replace(' ', '-').lower()}-{event_date.strftime('%Y%m%d')}"\<close>
\<close>

definition event_uid :: "platform \<Rightarrow> string \<Rightarrow> date \<Rightarrow> string" where
  "event_uid pl nm event_date =
     ''birthday-'' @ py_lower (lower_ext pl) (py_replace '' '' ''-'' nm) @ ''-'' @
     strftime_Ymd (pads_year pl) event_date"

text \<open>
  The VEVENT that \<^verbatim>\<open>create_birthday_event\<close> builds and saves, as it is read back.
\<close>

definition new_event ::
    "platform \<Rightarrow> birthday_config \<Rightarrow> string \<Rightarrow> date \<Rightarrow> date \<Rightarrow> string \<Rightarrow> string \<Rightarrow> valarm list
      \<Rightarrow> vevent" where
  "new_event pl cfg nm event_date next_day event_title event_description alarms =
     \<lparr>uid = Some (stored_text pl (event_uid pl nm event_date)),
      dtstart = event_date,
      dtend = next_day,
      all_day = True,
      summary = Some (stored_text pl event_title),
      description = Some (stored_text pl event_description),
      categories = Some [stored_text pl (event_category cfg)],
      rrule = Some ''FREQ=YEARLY'',
      valarm_list = map (stored_alarm pl) alarms\<rparr>"

definition create_birthday_event ::
    "platform \<Rightarrow> birthday_config \<Rightarrow> calendar \<Rightarrow> contact \<Rightarrow> int \<Rightarrow> outcome \<times> calendar" where
  "create_birthday_event pl cfg cal c yr =
     (case replace_year (birthday c) yr of
        Inl e \<Rightarrow> (Failed e, cal)
      | Inr event_date \<Rightarrow>
     (case py_format (format_ext pl) (event_title_template cfg) [(''name'', PStr (name c))] of
        Inl e \<Rightarrow> (Failed e, cal)
      | Inr event_title \<Rightarrow>
     (case py_format (format_ext pl) (event_description_template cfg) [(''name'', PStr (name c))] of
        Inl e \<Rightarrow> (Failed e, cal)
      | Inr event_description \<Rightarrow>
     (case find_existing_event pl cfg cal (name c) event_date of
        Some existing_event \<Rightarrow>
          if update_existing cfg
          then update_existing_event pl cfg cal existing_event c yr event_title event_description
          else (Already_exists, cal)
      | None \<Rightarrow>
     (case add_one_day event_date of
        Inl e \<Rightarrow> (Failed e, cal)
      | Inr next_day \<Rightarrow>
     (case build_alarms (format_ext pl) cfg (name c) (reminder_days cfg) of
        Inl e \<Rightarrow> (Failed e, cal)
      | Inr alarms \<Rightarrow>
          (Created,
           cal @ [new_event pl cfg (name c) event_date next_day event_title event_description
                    alarms])))))))"

section \<open>One synchronisation pass (\<^verbatim>\<open>main.py\<close>, \<^verbatim>\<open>main_sync\<close>)\<close>

text \<open>
  The loop over the contacts: every contact is reconciled for the current year and for
  the next one; \<open>created_count\<close> counts the calls that returned \<^verbatim>\<open>True\<close>.
\<close>

fun sync_contacts ::
    "platform \<Rightarrow> birthday_config \<Rightarrow> int \<Rightarrow> contact list \<Rightarrow> nat \<times> calendar \<Rightarrow> nat \<times> calendar" where
  "sync_contacts pl cfg current_year [] st = st"
| "sync_contacts pl cfg current_year (c # cs) (created_count, cal) =
     (let (r1, cal1) = create_birthday_event pl cfg cal c current_year;
          n1 = (if returned r1 then created_count + 1 else created_count);
          (r2, cal2) = create_birthday_event pl cfg cal1 c (current_year + 1);
          n2 = (if returned r2 then n1 + 1 else n1)
      in sync_contacts pl cfg current_year cs (n2, cal2))"

text \<open>
  \<open>cardav\<close> is what connecting to the address book and \<^verbatim>\<open>get_contacts()\<close> give:
  the contacts, or the exception of the constructor. \<open>caldav\<close> is what the constructor of
  \<^verbatim>\<open>CalDAVClient\<close> gives: the configuration it loaded, or its exception. Any exception
  is caught by \<^verbatim>\<open>main_sync\<close>, which then returns \<^verbatim>\<open>False\<close>.
\<close>

definition main_sync ::
    "platform \<Rightarrow> py_error + contact list \<Rightarrow> py_error + birthday_config \<Rightarrow> calendar \<Rightarrow> int
      \<Rightarrow> bool \<times> calendar" where
  "main_sync pl cardav caldav cal current_year =
     (case cardav of
        Inl e \<Rightarrow> (False, cal)
      | Inr contacts \<Rightarrow>
          (case caldav of
             Inl e \<Rightarrow> (False, cal)
           | Inr cfg \<Rightarrow>
               if contacts = [] then (False, cal)
               else (True, snd (sync_contacts pl cfg current_year contacts (0, cal)))))"

section \<open>The scheduler (\<^verbatim>\<open>scheduler.py\<close>)\<close>

text \<open>
  A \<^verbatim>\<open>datetime\<close> is its number of microseconds since some origin, a
  \<^verbatim>\<open>timedelta\<close> a number of microseconds. Every reading of the clock
  (\<^verbatim>\<open>datetime.now()\<close>) is an argument. \<^verbatim>\<open>timedelta(hours=h)\<close> raises
  \<open>OverflowError\<close> beyond 999999999 days.
\<close>

type_synonym time = int

definition hours :: "int \<Rightarrow> int" where
  "hours h = h * 3600000000"

definition minutes :: "int \<Rightarrow> int" where
  "minutes m = m * 60000000"

definition timedelta_hours :: "int \<Rightarrow> py_error + int" where
  "timedelta_hours h =
     (if \<bar>hours h div (24 * 3600000000)\<bar> \<le> 999999999 then Inr (hours h) else Inl OverflowError)"

record scheduler =
  sync_schedule :: string
  diagnostic_schedule :: string
  sync_interval_hours :: int
  startup_delay :: int
  last_sync :: "time option"
  running :: bool

text \<open>
  \<^verbatim>\<open>croniter(schedule, base).get_next(datetime)\<close> is a library call: the parameter
  \<open>cron\<close> gives the next fire time after \<open>base\<close>, or the exception raised for an
  expression that is not valid.
\<close>

type_synonym croniter = "string \<Rightarrow> time \<Rightarrow> py_error + time"

definition next_sync_time :: "croniter \<Rightarrow> string \<Rightarrow> time \<Rightarrow> time \<Rightarrow> time" where
  "next_sync_time cron schedule now1 now2 =
     (case cron schedule now1 of
        Inr next_time \<Rightarrow> next_time
      | Inl e \<Rightarrow> now2 + hours 1)"

definition should_sync_interval :: "scheduler \<Rightarrow> time \<Rightarrow> py_error + bool" where
  "should_sync_interval s now =
     (if sync_interval_hours s \<le> 0 then Inr False
      else (case last_sync s of
              None \<Rightarrow> Inr True
            | Some t \<Rightarrow>
                (case timedelta_hours (sync_interval_hours s) of
                   Inl e \<Rightarrow> Inl e
                 | Inr interval \<Rightarrow> Inr (now - t \<ge> interval))))"

text \<open>The bare \<^verbatim>\<open>except:\<close> turns every exception into \<^verbatim>\<open>False\<close>.\<close>

definition should_sync_cron :: "croniter \<Rightarrow> string \<Rightarrow> time \<Rightarrow> time \<Rightarrow> bool" where
  "should_sync_cron cron schedule now1 now2 =
     (case cron schedule (now1 - minutes 1) of
        Inr next_time \<Rightarrow> next_time \<le> now2
      | Inl e \<Rightarrow> False)"

text \<open>
  \<^verbatim>\<open>_perform_sync\<close>: \<open>sync_func\<close> and \<open>diagnostic_func\<close> are what a call of the
  function of that name gives, a truth value or an exception; only the one selected by
  \<open>diagnostic\<close> is called.
\<close>

definition perform_sync ::
    "py_error + bool \<Rightarrow> py_error + bool \<Rightarrow> scheduler \<Rightarrow> bool \<Rightarrow> time \<Rightarrow> bool \<times> scheduler" where
  "perform_sync sync_func diagnostic_func s diagnostic now =
     (if diagnostic then
        (case diagnostic_func of
           Inl e \<Rightarrow> (False, s)
         | Inr success \<Rightarrow> (success, s))
      else
        (case sync_func of
           Inl e \<Rightarrow> (False, s)
         | Inr success \<Rightarrow>
             if success then (success, s\<lparr>last_sync := Some now\<rparr>) else (success, s)))"

section \<open>Loading the configuration (\<^verbatim>\<open>get_birthday_config\<close>, \<^verbatim>\<open>_load_config\<close>)\<close>

type_synonym environ = "string \<rightharpoonup> string"

text \<open>\<^verbatim>\<open>os.getenv(key, default)\<close>\<close>

definition getenv :: "environ \<Rightarrow> string \<Rightarrow> string \<Rightarrow> string" where
  "getenv env key dflt = (case env key of None \<Rightarrow> dflt | Some v \<Rightarrow> v)"

definition is_space :: "char \<Rightarrow> bool" where
  "is_space c = (c \<in> set [CHR '' '', CHR 0x09, CHR 0x0A, CHR 0x0B, CHR 0x0C, CHR 0x0D,
                            CHR 0x1C, CHR 0x1D, CHR 0x1E, CHR 0x1F])"

text \<open>
  \<^verbatim>\<open>str.strip()\<close>: on an ASCII text the white space of ASCII is removed at both ends;
  \<open>sx\<close> is Python's result on a text that has other characters.
\<close>

definition py_strip :: "(string \<Rightarrow> string) \<Rightarrow> string \<Rightarrow> string" where
  "py_strip sx s =
     (if ascii_text s then rev (dropWhile is_space (rev (dropWhile is_space s))) else sx s)"

text \<open>\<^verbatim>\<open>str.split(sep)\<close> for a separator of one character.\<close>

fun py_split :: "char \<Rightarrow> string \<Rightarrow> string list" where
  "py_split sep [] = [[]]"
| "py_split sep (c # cs) =
     (if c = sep then [] # py_split sep cs
      else (case py_split sep cs of
              [] \<Rightarrow> [[c]]
            | p # ps \<Rightarrow> (c # p) # ps))"

text \<open>
  \<^verbatim>\<open>int(s)\<close> on an ASCII text: blanks around, an optional sign, then decimal digits,
  where single underscores may stand between digits; \<open>ix\<close> is Python's result on a text
  that has other characters.
\<close>

definition int_digits :: "string \<Rightarrow> int option" where
  "int_digits s =
     (if s = [] \<or> hd s = CHR ''_'' \<or> last s = CHR ''_'' \<or> sublist ''__'' s \<or>
         \<not> list_all (\<lambda>c. c = CHR ''_'' \<or> digit_val c \<noteq> None) s
      then None
      else Some (foldl (\<lambda>acc c. case digit_val c of None \<Rightarrow> acc | Some d \<Rightarrow> acc * 10 + d) 0 s))"

definition py_int :: "(string \<Rightarrow> string) \<Rightarrow> (string \<Rightarrow> py_error + int) \<Rightarrow> string \<Rightarrow> py_error + int" where
  "py_int sx ix s =
     (if ascii_text s then
        (let t = py_strip sx s;
             r = (case t of
                    [] \<Rightarrow> None
                  | c # cs \<Rightarrow>
                      if c = CHR ''-'' then map_option uminus (int_digits cs)
                      else if c = CHR ''+'' then int_digits cs
                      else int_digits t)
         in case r of None \<Rightarrow> Inl ValueError | Some i \<Rightarrow> Inr i)
      else ix s)"

fun parse_all_ints ::
    "(string \<Rightarrow> string) \<Rightarrow> (string \<Rightarrow> py_error + int) \<Rightarrow> string list \<Rightarrow> py_error + int list" where
  "parse_all_ints sx ix [] = Inr []"
| "parse_all_ints sx ix (d # ds) =
     (case py_int sx ix (py_strip sx d) of
        Inl e \<Rightarrow> Inl e
      | Inr i \<Rightarrow> (case parse_all_ints sx ix ds of Inl e \<Rightarrow> Inl e | Inr is \<Rightarrow> Inr (i # is)))"

text \<open>
  The configuration that \<^verbatim>\<open>_load_config\<close> stores, from the dictionary that
  \<^verbatim>\<open>get_birthday_config\<close> reads out of the environment. The default title starts with
  the nine bytes that the source file has there.
\<close>

definition default_title :: string where
  "default_title =
     [CHR 0xC3, CHR 0xB0, CHR 0xC5, CHR 0xB8, CHR 0xC5, CHR 0xBD, CHR 0xE2, CHR 0x80, CHR 0x9A] @
     '' {name}'s Birthday''"

definition load_config :: "platform \<Rightarrow> environ \<Rightarrow> birthday_config" where
  "load_config pl env =
     \<lparr>event_title_template = getenv env ''BIRTHDAY_EVENT_TITLE'' default_title,
      event_description_template = getenv env ''BIRTHDAY_EVENT_DESCRIPTION'' ''Birthday of {name}'',
      reminder_days =
        (case parse_all_ints (strip_ext pl) (int_ext pl)
                (filter (\<lambda>d. py_strip (strip_ext pl) d \<noteq> [])
                   (py_split (CHR '','') (getenv env ''BIRTHDAY_REMINDER_DAYS'' ''1''))) of
           Inl e \<Rightarrow> [1]
         | Inr ds \<Rightarrow> ds),
      reminder_template =
        getenv env ''BIRTHDAY_REMINDER_MESSAGE'' ''Reminder: {name}'s birthday is in {days} days!'',
      event_category = getenv env ''BIRTHDAY_EVENT_CATEGORY'' ''Birthday'',
      update_existing =
        (py_lower (lower_ext pl) (getenv env ''BIRTHDAY_UPDATE_EXISTING'' ''true'') = ''true'')\<rparr>"

section \<open>Birthdays of contacts (\<^verbatim>\<open>CardDAVClient._parse_vcard\<close>)\<close>

text \<open>
  \<^verbatim>\<open>datetime.strptime(s, fmt)\<close> for the directives the program uses: the format is a
  regular expression matched at the start of the string, alternatives tried in their order;
  text left over after the match is a \<open>ValueError\<close>, and so is a date outside the calendar.
\<close>

datatype directive = Dir_Y | Dir_m | Dir_d | Lit char

definition dval :: "char \<Rightarrow> int" where
  "dval c = (case digit_val c of None \<Rightarrow> 0 | Some d \<Rightarrow> d)"

definition is_digit :: "char \<Rightarrow> bool" where
  "is_digit c = (digit_val c \<noteq> None)"

text \<open>The two-character and one-character alternatives of a directive at the start of a string.\<close>

definition two_chars :: "(char \<Rightarrow> char \<Rightarrow> bool) \<Rightarrow> (char \<Rightarrow> char \<Rightarrow> int) \<Rightarrow> string \<Rightarrow> (int \<times> string) list" where
  "two_chars ok val s =
     (case s of
        a # b # r \<Rightarrow> if ok a b then [(val a b, r)] else []
      | _ \<Rightarrow> [])"

definition one_char :: "(char \<Rightarrow> bool) \<Rightarrow> string \<Rightarrow> (int \<times> string) list" where
  "one_char ok s =
     (case s of
        a # r \<Rightarrow> if ok a then [(dval a, r)] else []
      | [] \<Rightarrow> [])"

definition nonzero_digit :: "char \<Rightarrow> bool" where
  "nonzero_digit c = (c \<in> set ''123456789'')"

fun re_directive :: "directive \<Rightarrow> string \<Rightarrow> ((char \<times> int) list \<times> string) list" where
  "re_directive Dir_Y s =
     (case s of
        a # b # c # d # r \<Rightarrow>
          if is_digit a \<and> is_digit b \<and> is_digit c \<and> is_digit d
          then [([(CHR ''Y'', 1000 * dval a + 100 * dval b + 10 * dval c + dval d)], r)]
          else []
      | _ \<Rightarrow> [])"
| "re_directive Dir_m s =
     map (\<lambda>(v, r). ([(CHR ''m'', v)], r))
       (two_chars (\<lambda>a b. a = CHR ''1'' \<and> b \<in> set ''012'') (\<lambda>a b. 10 + dval b) s @
        two_chars (\<lambda>a b. a = CHR ''0'' \<and> nonzero_digit b) (\<lambda>a b. dval b) s @
        one_char nonzero_digit s)"
| "re_directive Dir_d s =
     map (\<lambda>(v, r). ([(CHR ''d'', v)], r))
       (two_chars (\<lambda>a b. a = CHR ''3'' \<and> b \<in> set ''01'') (\<lambda>a b. 30 + dval b) s @
        two_chars (\<lambda>a b. a \<in> set ''12'' \<and> is_digit b) (\<lambda>a b. 10 * dval a + dval b) s @
        two_chars (\<lambda>a b. a = CHR ''0'' \<and> nonzero_digit b) (\<lambda>a b. dval b) s @
        one_char nonzero_digit s @
        two_chars (\<lambda>a b. a = CHR '' '' \<and> nonzero_digit b) (\<lambda>a b. dval b) s)"
| "re_directive (Lit ch) s =
     (case s of
        a # r \<Rightarrow> if a = ch then [([], r)] else []
      | [] \<Rightarrow> [])"

fun re_match :: "directive list \<Rightarrow> string \<Rightarrow> ((char \<times> int) list \<times> string) list" where
  "re_match [] s = [([], s)]"
| "re_match (d # ds) s =
     concat (map (\<lambda>(g, r). map (\<lambda>(gs, r'). (g @ gs, r')) (re_match ds r)) (re_directive d s))"

definition group :: "(char \<times> int) list \<Rightarrow> char \<Rightarrow> int \<Rightarrow> int" where
  "group gs k dflt = (case map_of gs k of None \<Rightarrow> dflt | Some v \<Rightarrow> v)"

definition strptime :: "string \<Rightarrow> directive list \<Rightarrow> py_error + date" where
  "strptime s fmt =
     (case re_match fmt s of
        [] \<Rightarrow> Inl ValueError
      | (gs, rest) # others \<Rightarrow>
          if rest \<noteq> [] then Inl ValueError
          else make_date (group gs (CHR ''Y'') 1900) (group gs (CHR ''m'') 1) (group gs (CHR ''d'') 1))"

definition fmt_Ymd :: "directive list" where
  "fmt_Ymd = [Dir_Y, Dir_m, Dir_d]"

definition fmt_Y_m_d :: "directive list" where
  "fmt_Y_m_d = [Dir_Y, Lit (CHR ''-''), Dir_m, Lit (CHR ''-''), Dir_d]"

definition fmt_mdY_slash :: "directive list" where
  "fmt_mdY_slash = [Dir_m, Lit (CHR ''/''), Dir_d, Lit (CHR ''/''), Dir_Y]"

definition fmt_dmY_slash :: "directive list" where
  "fmt_dmY_slash = [Dir_d, Lit (CHR ''/''), Dir_m, Lit (CHR ''/''), Dir_Y]"

text \<open>
  The branch of \<^verbatim>\<open>_parse_vcard\<close> for a BDAY value that is a string, which is how
  \<^verbatim>\<open>vobject\<close> hands it over. \<open>None\<close>: the contact is left out. The lengths and
  the digits are those of an ASCII text; for any other text the result is what
  \<open>birthday_ext\<close> gives.
\<close>

definition parse_birthday :: "platform \<Rightarrow> string \<Rightarrow> date option" where
  "parse_birthday pl bday =
     (if \<not> ascii_text bday then birthday_ext pl bday
      else
      let bday_clean = hd (py_split (CHR ''T'') (py_strip (strip_ext pl) bday));
          parsed =
            (if length bday_clean = 8 \<and> bday_clean \<noteq> [] \<and> list_all is_digit bday_clean
               then strptime bday_clean fmt_Ymd
             else if length bday_clean = 10 \<and> count_list bday_clean (CHR ''-'') = 2
               then strptime bday_clean fmt_Y_m_d
             else if length bday_clean = 10 \<and> count_list bday_clean (CHR ''/'') = 2
               then (case strptime bday_clean fmt_mdY_slash of
                       Inr d \<Rightarrow> Inr d
                     | Inl e \<Rightarrow> strptime bday_clean fmt_dmY_slash)
             else if prefix ''--'' bday_clean
               then strptime (''2000-'' @ drop 2 bday_clean) fmt_Y_m_d
             else Inl ValueError)
      in case parsed of Inl e \<Rightarrow> None | Inr d \<Rightarrow> Some d)"

text \<open>
  The card as \<^verbatim>\<open>vobject\<close> read it: the FN value, the given and family parts of N,
  and the BDAY value, each absent or present.
\<close>

record vcard =
  vc_fn :: "string option"
  vc_n :: "(string \<times> string) option"
  vc_bday :: "string option"

definition vcard_name :: "platform \<Rightarrow> vcard \<Rightarrow> string" where
  "vcard_name pl v =
     (case vc_fn v of
        Some f \<Rightarrow> py_strip (strip_ext pl) f
      | None \<Rightarrow>
          (case vc_n v of
             Some (given, family) \<Rightarrow>
               (let name_parts = (if given \<noteq> [] then [given] else []) @
                                 (if family \<noteq> [] then [family] else [])
                in case name_parts of
                     [] \<Rightarrow> ''Unknown''
                   | [a] \<Rightarrow> a
                   | a # b # rest \<Rightarrow> a @ '' '' @ b)
           | None \<Rightarrow> ''Unknown''))"

definition parse_vcard :: "platform \<Rightarrow> vcard \<Rightarrow> contact option" where
  "parse_vcard pl v =
     (case vc_bday v of
        None \<Rightarrow> None
      | Some b \<Rightarrow>
          (case parse_birthday pl b of
             None \<Rightarrow> None
           | Some d \<Rightarrow> Some \<lparr>name = vcard_name pl v, birthday = d\<rparr>))"

section \<open>Example inputs\<close>

text \<open>
  A formatter for the examples: their templates have no extended replacement field, so it
  is never consulted.
\<close>

definition plain_formatter :: formatter where
  "plain_formatter template kw = Inl ValueError"

text \<open>
  A platform for the examples: CPython on Linux, where \<^verbatim>\<open>strftime\<close> does not fill
  the year, and a server that returns the all-day events that start on the day and the
  yearly instances, nothing else. The names, templates and texts of the examples are ASCII
  and plain, so the functions for the other cases are not consulted.
\<close>

definition example_platform :: platform where
  "example_platform =
     \<lparr>format_ext = plain_formatter,
      lower_ext = (\<lambda>s. s),
      strip_ext = (\<lambda>s. s),
      int_ext = (\<lambda>s. Inl ValueError),
      birthday_ext = (\<lambda>s. None),
      text_ext = (\<lambda>s. s),
      pads_year = False,
      range_ext = (\<lambda>start end whole_day rule d. False)\<rparr>"

text \<open>
  The configuration loaded from an environment that sets none of the variables. The
  defaults that are stripped, lowered or read as numbers while loading are ASCII, so it
  is the same on every platform.
\<close>

definition default_config :: birthday_config where
  "default_config = load_config example_platform Map.empty"

text \<open>The default configuration with the title in ASCII.\<close>

definition ascii_title_config :: birthday_config where
  "ascii_title_config = default_config\<lparr>event_title_template := ''{name}'s Birthday''\<rparr>"

definition bob :: contact where
  "bob = \<lparr>name = ''Bob'', birthday = \<lparr>dt_year = 2000, dt_month = 6, dt_day = 15\<rparr>\<rparr>"

definition leap_day_contact :: contact where
  "leap_day_contact = \<lparr>name = ''Leap'', birthday = \<lparr>dt_year = 2000, dt_month = 2, dt_day = 29\<rparr>\<rparr>"

definition june_15 :: "int \<Rightarrow> date" where
  "june_15 y = \<lparr>dt_year = y, dt_month = 6, dt_day = 15\<rparr>"

text \<open>An event that a person entered by hand, and one with an identifier but no summary.\<close>

definition handmade_event :: vevent where
  "handmade_event =
     \<lparr>uid = Some ''7f3a-handmade'', dtstart = june_15 2025,
      dtend = \<lparr>dt_year = 2025, dt_month = 6, dt_day = 16\<rparr>, all_day = True,
      summary = Some ''Bob birthday party'', description = None, categories = None,
      rrule = None, valarm_list = []\<rparr>"

definition bare_uid_event :: vevent where
  "bare_uid_event =
     \<lparr>uid = Some ''birthday-bob-20250615'', dtstart = june_15 2025,
      dtend = \<lparr>dt_year = 2025, dt_month = 6, dt_day = 16\<rparr>, all_day = True,
      summary = None, description = None, categories = None,
      rrule = Some ''FREQ=YEARLY'', valarm_list = []\<rparr>"

text \<open>A title without the word birthday, and a reminder with a positional placeholder.\<close>

definition greeting_config :: birthday_config where
  "greeting_config = default_config\<lparr>event_title_template := ''Congratulate {name}''\<rparr>"

definition positional_config :: birthday_config where
  "positional_config =
     default_config\<lparr>reminder_template := ''{0}'s birthday is in {days} days!''\<rparr>"

definition countdown_config :: birthday_config where
  "countdown_config =
     default_config\<lparr>reminder_template := ''{days} days until the birthday of {name}''\<rparr>"

definition example_scheduler :: scheduler where
  "example_scheduler =
     \<lparr>sync_schedule = ''0 6 * * *'', diagnostic_schedule = ''0 7 * * 0'',
      sync_interval_hours = 4, startup_delay = 30, last_sync = Some 0, running = True\<rparr>"

text \<open>An instance of the cron library that knows one expression and rejects all others.\<close>

definition hourly_cron :: croniter where
  "hourly_cron schedule base =
     (if schedule = ''0 * * * *'' then Inr ((base div hours 1 + 1) * hours 1) else Inl ValueError)"

text \<open>
  Two reminders, listed as 1 and 7 in the configuration, and an event of Bob that has the
  title and the description of the templates and alarms 7 days and 1 day before.
\<close>

definition two_reminder_config :: birthday_config where
  "two_reminder_config = ascii_title_config\<lparr>reminder_days := [1, 7]\<rparr>"

definition reminded_event :: vevent where
  "reminded_event =
     \<lparr>uid = Some ''birthday-bob-20250615'', dtstart = june_15 2025,
      dtend = \<lparr>dt_year = 2025, dt_month = 6, dt_day = 16\<rparr>, all_day = True,
      summary = Some ''Bob's Birthday'',
      description = Some ''Birthday of Bob'', categories = Some [''Birthday''],
      rrule = Some ''FREQ=YEARLY'',
      valarm_list =
        [\<lparr>action = ''DISPLAY'', trigger = Some (Timedelta (- 7)), alarm_description = Some ''in a week''\<rparr>,
         \<lparr>action = ''DISPLAY'', trigger = Some (Timedelta (- 1)), alarm_description = Some ''tomorrow''\<rparr>]\<rparr>"

definition typo_config :: birthday_config where
  "typo_config =
     default_config\<lparr>reminder_template := ''{days} dayss until the birthday of {name}''\<rparr>"

definition greeting_only_config :: birthday_config where
  "greeting_only_config = default_config\<lparr>reminder_template := ''Do not forget {name}!''\<rparr>"

text \<open>The event of the scenario: Bob, born on 15 June, in 2025, default configuration.\<close>

definition scenario_event :: vevent where
  "scenario_event =
     \<lparr>uid = Some ''birthday-bob-20250615'',
      dtstart = \<lparr>dt_year = 2025, dt_month = 6, dt_day = 15\<rparr>,
      dtend = \<lparr>dt_year = 2025, dt_month = 6, dt_day = 16\<rparr>,
      all_day = True,
      summary = Some (take 9 default_title @ '' Bob's Birthday''),
      description = Some ''Birthday of Bob'',
      categories = Some [''Birthday''],
      rrule = Some ''FREQ=YEARLY'',
      valarm_list =
        [\<lparr>action = ''DISPLAY'', trigger = Some (Timedelta (- 1)),
          alarm_description = Some ''Reminder: Bob's birthday is in 1 day!''\<rparr>]\<rparr>"

section \<open>The identifier in the words of the specification\<close>

text \<open>
  The specification gives the identifier as \<^verbatim>\<open>"birthday-" + normalized(name) + "-" +
  YYYYMMDD(date)\<close>, the normalized name being the name lowercased with spaces replaced by
  hyphens, and the date written with four digits for the year, two for the month and two
  for the day. These three definitions follow those words, not the program; they are
  compared with \<open>event_uid\<close> below. \<open>lx\<close> is the lowering of texts that are not all
  ASCII, as in \<open>py_lower\<close>.
\<close>

definition spec_normalized :: "(string \<Rightarrow> string) \<Rightarrow> string \<Rightarrow> string" where
  "spec_normalized lx nm = py_replace '' '' ''-'' (py_lower lx nm)"

definition spec_YYYYMMDD :: "date \<Rightarrow> string" where
  "spec_YYYYMMDD d =
     (let y = nat (dt_year d); m = nat (dt_month d); dd = nat (dt_day d)
      in [digit_char (y div 1000), digit_char (y div 100), digit_char (y div 10), digit_char y,
          digit_char (m div 10), digit_char m,
          digit_char (dd div 10), digit_char dd])"

definition spec_uid :: "(string \<Rightarrow> string) \<Rightarrow> string \<Rightarrow> date \<Rightarrow> string" where
  "spec_uid lx nm d = ''birthday-'' @ spec_normalized lx nm @ ''-'' @ spec_YYYYMMDD d"

section \<open>Lemmas on the lookup and on the alarms\<close>

lemma build_alarms_reminders:
  "build_alarms fx cfg nm ds = Inr alarms \<Longrightarrow> current_reminders alarms = map abs ds"
proof (induction ds arbitrary: alarms)
  case Nil
  then show ?case by simp
next
  case (Cons d ds)
  then show ?case
    by (auto simp: timedelta_days_def split: sum.splits if_splits)
qed

lemma nonneg_abs_id: "\<forall>d \<in> set ds. (0::int) \<le> d \<Longrightarrow> map abs ds = ds"
  by (induction ds) auto

lemma current_reminders_stored:
  "current_reminders (map (stored_alarm pl) alarms) = current_reminders alarms"
  by (induction alarms) (auto simp: stored_alarm_def split: option.splits trigger_value.splits)

lemma first_match_append:
  "first_match pl cfg nm (xs @ ys) =
     (case first_match pl cfg nm xs of Some e \<Rightarrow> Some e | None \<Rightarrow> first_match pl cfg nm ys)"
  by (induction xs) auto

lemma search_append:
  "filter (\<lambda>(i, ev). in_range pl ev d) (enumerate k (cal @ [ev])) =
     filter (\<lambda>(i, ev). in_range pl ev d) (enumerate k cal) @
     (if in_range pl ev d then [(k + length cal, ev)] else [])"
  by (simp add: enumerate_append_eq)

text \<open>
  The event that the lookup returns is the first stored event of the day that passes the
  test, and conversely.
\<close>

lemma first_match_split:
  "first_match pl cfg nm (filter (\<lambda>(i, ev). in_range pl ev d) (enumerate k cal)) = Some (i, ev) \<Longrightarrow>
     \<exists>pre post. cal = pre @ ev # post \<and> i = k + length pre \<and> in_range pl ev d \<and>
       event_matches pl cfg nm ev \<and>
       (\<forall>x \<in> set pre. \<not> (in_range pl x d \<and> event_matches pl cfg nm x))"
proof (induction cal arbitrary: k)
  case Nil
  then show ?case by simp
next
  case (Cons x xs)
  show ?case
  proof (cases "in_range pl x d \<and> event_matches pl cfg nm x")
    case True
    with Cons.prems have "i = k" "ev = x" by auto
    with True show ?thesis by (intro exI [of _ "[]"] exI [of _ xs]) simp
  next
    case False
    with Cons.prems
    have "first_match pl cfg nm (filter (\<lambda>(i, ev). in_range pl ev d) (enumerate (Suc k) xs)) =
            Some (i, ev)"
      by (auto split: if_splits)
    from Cons.IH [OF this] obtain pre post where
      "xs = pre @ ev # post" "i = Suc k + length pre" "in_range pl ev d"
      "event_matches pl cfg nm ev"
      "\<forall>x \<in> set pre. \<not> (in_range pl x d \<and> event_matches pl cfg nm x)" by blast
    with False show ?thesis
      by (intro exI [of _ "x # pre"] exI [of _ post]) auto
  qed
qed

lemma first_match_at:
  "in_range pl ev d \<Longrightarrow> event_matches pl cfg nm ev \<Longrightarrow>
   \<forall>x \<in> set pre. \<not> (in_range pl x d \<and> event_matches pl cfg nm x) \<Longrightarrow>
   first_match pl cfg nm (filter (\<lambda>(i, ev). in_range pl ev d) (enumerate k (pre @ ev # post))) =
     Some (k + length pre, ev)"
proof (induction pre arbitrary: k)
  case Nil
  then show ?case by simp
next
  case (Cons x pre)
  from Cons.prems have "\<not> (in_range pl x d \<and> event_matches pl cfg nm x)" by simp
  moreover have
    "first_match pl cfg nm (filter (\<lambda>(i, ev). in_range pl ev d) (enumerate (Suc k) (pre @ ev # post))) =
       Some (Suc k + length pre, ev)"
    using Cons.IH [of "Suc k"] Cons.prems by simp
  ultimately show ?case by auto
qed

lemma expected_uid_prefix: "prefix (expected_uid pl nm) (event_uid pl nm d)"
  by (simp add: expected_uid_def event_uid_def)

lemma update_outcome: "update_existing_event pl cfg cal e c yr t ds \<noteq> (Created, cal')"
  by (auto simp: update_existing_event_def split: sum.splits)

lemma create_Created_inv:
  assumes "create_birthday_event pl cfg cal c yr = (Created, cal')"
  obtains d t ds nd alarms where
    "replace_year (birthday c) yr = Inr d"
    "py_format (format_ext pl) (event_title_template cfg) [(''name'', PStr (name c))] = Inr t"
    "py_format (format_ext pl) (event_description_template cfg) [(''name'', PStr (name c))] = Inr ds"
    "find_existing_event pl cfg cal (name c) d = None"
    "add_one_day d = Inr nd"
    "build_alarms (format_ext pl) cfg (name c) (reminder_days cfg) = Inr alarms"
    "cal' = cal @ [new_event pl cfg (name c) d nd t ds alarms]"
  using assms
  unfolding create_birthday_event_def
  by (auto simp: update_outcome split: sum.splits option.splits if_splits)

lemma create_Updated_inv:
  assumes "create_birthday_event pl cfg cal c yr = (Updated, cal')"
  obtains d t ds i ev alarms where
    "replace_year (birthday c) yr = Inr d"
    "py_format (format_ext pl) (event_title_template cfg) [(''name'', PStr (name c))] = Inr t"
    "py_format (format_ext pl) (event_description_template cfg) [(''name'', PStr (name c))] = Inr ds"
    "find_existing_event pl cfg cal (name c) d = Some (i, ev)"
    "update_existing cfg"
    "build_alarms (format_ext pl) cfg (name c) (reminder_days cfg) = Inr alarms"
    "cal' = cal[i := updated_event pl cfg ev t ds alarms]"
  using assms
  unfolding create_birthday_event_def update_existing_event_def
  by (auto split: sum.splits option.splits if_splits)

lemma no_update_after_write:
  assumes "build_alarms fx cfg nm (reminder_days cfg) = Inr alarms"
    and "\<forall>d \<in> set (reminder_days cfg). 0 \<le> d"
    and "summary ev = Some t" and "description ev = Some ds"
    and "valarm_list ev = map (stored_alarm pl) alarms"
  shows "\<not> update_needed cfg ev t ds"
  using assms build_alarms_reminders [OF assms(1)] nonneg_abs_id [OF assms(2)]
  by (simp add: update_needed_def current_title_def current_description_def
      current_reminders_stored)

section \<open>Reconciliation\<close>

text \<open>
  Claim C1, as the program has it. When a call of \<open>create_birthday_event\<close> has created
  the event, or has updated an existing one, no reminder day of the configuration is
  negative, and the rendered title, the rendered description and the identifier are read
  back from the calendar as they were written (they are when they are plain: not empty,
  no control character such as a carriage return, no space at either end), the same call
  repeated at once on the calendar it left writes nothing: it finds the event and returns
  \<^verbatim>\<open>False\<close>, because no update is needed, or because updates are switched off. After
  an update this needs the updated event to be found again: the new title passes the test
  on the summary (the name, and the category or the word birthday), or the identifier of
  the event starts with the expected prefix. After a create the identifier always does.
\<close>

theorem reconcile_idempotent:
  assumes first: "create_birthday_event pl cfg cal c yr = (r, cal')"
    and wrote: "r = Created \<or> r = Updated"
    and nonneg: "\<forall>d \<in> set (reminder_days cfg). 0 \<le> d"
    and read_title:
      "\<forall>t. py_format (format_ext pl) (event_title_template cfg) [(''name'', PStr (name c))] = Inr t
          \<longrightarrow> stored_text pl t = t"
    and read_description:
      "\<forall>ds. py_format (format_ext pl) (event_description_template cfg) [(''name'', PStr (name c))] =
             Inr ds
          \<longrightarrow> stored_text pl ds = ds"
    and read_uid:
      "\<forall>d. replace_year (birthday c) yr = Inr d
          \<longrightarrow> stored_text pl (event_uid pl (name c) d) = event_uid pl (name c) d"
    and still: "r = Updated \<longrightarrow>
      (\<exists>t. py_format (format_ext pl) (event_title_template cfg) [(''name'', PStr (name c))] = Inr t \<and>
           summary_matches pl cfg (name c) t) \<or>
      (\<exists>d i ev u. replace_year (birthday c) yr = Inr d \<and>
           find_existing_event pl cfg cal (name c) d = Some (i, ev) \<and>
           uid ev = Some u \<and> prefix (expected_uid pl (name c)) u)"
  shows "create_birthday_event pl cfg cal' c yr =
           (if update_existing cfg then No_update_needed else Already_exists, cal') \<and>
         skipped (fst (create_birthday_event pl cfg cal' c yr)) \<and>
         \<not> returned (fst (create_birthday_event pl cfg cal' c yr))"
proof (cases "r = Created")
  case True
  with first obtain d t ds nd alarms where h:
    "replace_year (birthday c) yr = Inr d"
    "py_format (format_ext pl) (event_title_template cfg) [(''name'', PStr (name c))] = Inr t"
    "py_format (format_ext pl) (event_description_template cfg) [(''name'', PStr (name c))] = Inr ds"
    "find_existing_event pl cfg cal (name c) d = None"
    "add_one_day d = Inr nd"
    "build_alarms (format_ext pl) cfg (name c) (reminder_days cfg) = Inr alarms"
    "cal' = cal @ [new_event pl cfg (name c) d nd t ds alarms]"
    by (auto elim: create_Created_inv)
  let ?ev = "new_event pl cfg (name c) d nd t ds alarms"
  from read_title h(2) have rt: "stored_text pl t = t" by blast
  from read_description h(3) have rd: "stored_text pl ds = ds" by blast
  from read_uid h(1) have ru: "stored_text pl (event_uid pl (name c) d) = event_uid pl (name c) d"
    by blast
  have m: "event_matches pl cfg (name c) ?ev"
    by (simp add: event_matches_def new_event_def ru expected_uid_prefix)
  have r: "in_range pl ?ev d"
    by (simp add: in_range_def new_event_def)
  have "first_match pl cfg (name c) (search pl cal d) = None"
    using h(4,5) by (simp add: find_existing_event_def)
  then have found: "find_existing_event pl cfg cal' (name c) d = Some (length cal, ?ev)"
    using h(5,7) m r
    by (simp add: find_existing_event_def search_def search_append first_match_append)
  have "\<not> update_needed cfg ?ev t ds"
    using no_update_after_write [OF h(6) nonneg, where ev = ?ev and t = t and ds = ds and pl = pl]
    by (simp add: new_event_def rt rd)
  then have "create_birthday_event pl cfg cal' c yr =
           (if update_existing cfg then No_update_needed else Already_exists, cal')"
    using h(1,2,3) found
    by (simp add: create_birthday_event_def update_existing_event_def)
  then show ?thesis by simp
next
  case False
  with wrote have upd: "r = Updated" by simp
  with first obtain d t ds i ev alarms where h:
    "replace_year (birthday c) yr = Inr d"
    "py_format (format_ext pl) (event_title_template cfg) [(''name'', PStr (name c))] = Inr t"
    "py_format (format_ext pl) (event_description_template cfg) [(''name'', PStr (name c))] = Inr ds"
    "find_existing_event pl cfg cal (name c) d = Some (i, ev)"
    "update_existing cfg"
    "build_alarms (format_ext pl) cfg (name c) (reminder_days cfg) = Inr alarms"
    "cal' = cal[i := updated_event pl cfg ev t ds alarms]"
    by (auto elim: create_Updated_inv)
  let ?ev = "updated_event pl cfg ev t ds alarms"
  from read_title h(2) have rt: "stored_text pl t = t" by blast
  from read_description h(3) have rd: "stored_text pl ds = ds" by blast
  from h(4) obtain nd where nd: "add_one_day d = Inr nd"
    and fm: "first_match pl cfg (name c) (search pl cal d) = Some (i, ev)"
    by (auto simp: find_existing_event_def split: sum.splits)
  from first_match_split [OF fm [unfolded search_def]] obtain pre post where sp:
    "cal = pre @ ev # post" "i = length pre" "in_range pl ev d"
    "\<forall>x \<in> set pre. \<not> (in_range pl x d \<and> event_matches pl cfg (name c) x)"
    by auto
  from still upd h(1,2,4) have
    "summary_matches pl cfg (name c) t \<or>
     (\<exists>u. uid ev = Some u \<and> prefix (expected_uid pl (name c)) u)"
    by auto
  then have m: "event_matches pl cfg (name c) ?ev"
    by (auto simp: event_matches_def updated_event_def rt)
  have r: "in_range pl ?ev d"
    using sp(3) by (simp add: in_range_def updated_event_def)
  have cal': "cal' = pre @ ?ev # post"
    using h(7) sp(1,2) by simp
  have "first_match pl cfg (name c) (search pl cal' d) = Some (i, ?ev)"
    unfolding search_def cal'
    using first_match_at [OF r m sp(4), of 0 post] sp(2)
    by simp
  then have found: "find_existing_event pl cfg cal' (name c) d = Some (i, ?ev)"
    using nd by (simp add: find_existing_event_def)
  have "\<not> update_needed cfg ?ev t ds"
    using no_update_after_write [OF h(6) nonneg, where ev = ?ev and t = t and ds = ds and pl = pl]
    by (simp add: updated_event_def rt rd)
  then have "create_birthday_event pl cfg cal' c yr =
           (if update_existing cfg then No_update_needed else Already_exists, cal')"
    using h(1,2,3,5) found
    by (simp add: create_birthday_event_def update_existing_event_def)
  then show ?thesis by simp
qed

text \<open>
  The theorem at work: Bob in an empty calendar (a create, then nothing), and Bob in a
  calendar that holds the handmade event (an update, then nothing), both with the title
  template \<^verbatim>\<open>{name}'s Birthday\<close>.
\<close>

theorem reconcile_idempotent_witness:
  "fst (create_birthday_event example_platform ascii_title_config [] bob 2025) = Created \<and>
   create_birthday_event example_platform ascii_title_config
     (snd (create_birthday_event example_platform ascii_title_config [] bob 2025)) bob 2025 =
     (No_update_needed, snd (create_birthday_event example_platform ascii_title_config [] bob 2025)) \<and>
   fst (create_birthday_event example_platform ascii_title_config [handmade_event] bob 2025) = Updated \<and>
   create_birthday_event example_platform ascii_title_config
     (snd (create_birthday_event example_platform ascii_title_config [handmade_event] bob 2025))
     bob 2025 =
     (No_update_needed,
      snd (create_birthday_event example_platform ascii_title_config [handmade_event] bob 2025))"
proof -
  let ?c1 = "snd (create_birthday_event example_platform ascii_title_config [] bob 2025)"
  let ?c2 = "snd (create_birthday_event example_platform ascii_title_config [handmade_event] bob 2025)"
  have fa: "fst (create_birthday_event example_platform ascii_title_config [] bob 2025) = Created"
    by code_simp
  have fb: "fst (create_birthday_event example_platform ascii_title_config [handmade_event] bob 2025) =
              Updated"
    by code_simp
  have a: "create_birthday_event example_platform ascii_title_config [] bob 2025 = (Created, ?c1)"
    using fa by (simp add: prod_eq_iff)
  have b: "create_birthday_event example_platform ascii_title_config [handmade_event] bob 2025 =
             (Updated, ?c2)"
    using fb by (simp add: prod_eq_iff)
  have nonneg: "\<forall>d \<in> set (reminder_days ascii_title_config). 0 \<le> d"
    by code_simp
  have upd: "update_existing ascii_title_config"
    by code_simp
  have t: "py_format (format_ext example_platform) (event_title_template ascii_title_config)
             [(''name'', PStr (name bob))] = Inr ''Bob's Birthday''"
    by code_simp
  have ds: "py_format (format_ext example_platform) (event_description_template ascii_title_config)
              [(''name'', PStr (name bob))] = Inr ''Birthday of Bob''"
    by code_simp
  have d: "replace_year (birthday bob) 2025 = Inr (june_15 2025)"
    by code_simp
  have st: "stored_text example_platform ''Bob's Birthday'' = ''Bob's Birthday''"
    by code_simp
  have sds: "stored_text example_platform ''Birthday of Bob'' = ''Birthday of Bob''"
    by code_simp
  have su: "stored_text example_platform (event_uid example_platform (name bob) (june_15 2025)) =
              event_uid example_platform (name bob) (june_15 2025)"
    by code_simp
  have m: "summary_matches example_platform ascii_title_config (name bob) ''Bob's Birthday''"
    by code_simp
  have read_title:
    "\<forall>t. py_format (format_ext example_platform) (event_title_template ascii_title_config)
            [(''name'', PStr (name bob))] = Inr t \<longrightarrow> stored_text example_platform t = t"
    using st unfolding t by blast
  have read_description:
    "\<forall>ds. py_format (format_ext example_platform) (event_description_template ascii_title_config)
            [(''name'', PStr (name bob))] = Inr ds \<longrightarrow> stored_text example_platform ds = ds"
    using sds unfolding ds by blast
  have read_uid:
    "\<forall>d. replace_year (birthday bob) 2025 = Inr d \<longrightarrow>
       stored_text example_platform (event_uid example_platform (name bob) d) =
         event_uid example_platform (name bob) d"
    using su unfolding d by blast
  have r1: "create_birthday_event example_platform ascii_title_config ?c1 bob 2025 =
              (No_update_needed, ?c1)"
    using reconcile_idempotent [OF a _ nonneg read_title read_description read_uid] upd by simp
  have r2: "create_birthday_event example_platform ascii_title_config ?c2 bob 2025 =
              (No_update_needed, ?c2)"
    using reconcile_idempotent [OF b _ nonneg read_title read_description read_uid] upd t m by auto
  from fa r1 fb r2 show ?thesis by blast
qed

text \<open>
  Claim C1 as it is stated fails. The title template \<^verbatim>\<open>Congratulate {name}\<close> has
  neither the category nor the word birthday. The handmade event is found by its summary
  and updated; with its new title and its own identifier it is not found again, and the
  second call creates a second event.
\<close>

theorem reconcile_idempotent_counterexample:
  "fst (create_birthday_event example_platform greeting_config [handmade_event] bob 2025) = Updated \<and>
   fst (create_birthday_event example_platform greeting_config
          (snd (create_birthday_event example_platform greeting_config [handmade_event] bob 2025))
          bob 2025) = Created"
  by code_simp

text \<open>
  Claim C8. The reminder days read from the alarms of the existing event and the configured
  reminder days are compared as sorted lists. When the two hold the same days, in any
  order, and the title and the description of the event are the new ones, the update path
  returns \<^verbatim>\<open>False\<close> (no update needed) and leaves the calendar as it is; so does
  \<open>create_birthday_event\<close> when it finds that event.
\<close>

theorem reminders_compared_without_order:
  assumes same: "mset (current_reminders (valarm_list ev)) = mset (reminder_days cfg) \<or>
      (distinct (current_reminders (valarm_list ev)) \<and> distinct (reminder_days cfg) \<and>
       set (current_reminders (valarm_list ev)) = set (reminder_days cfg))"
    and title: "current_title ev = new_title"
    and descr: "current_description ev = new_description"
    and date: "replace_year (birthday c) yr = Inr d"
  shows "update_existing_event pl cfg cal (i, ev) c yr new_title new_description =
           (No_update_needed, cal) \<and>
         (py_format (format_ext pl) (event_title_template cfg) [(''name'', PStr (name c))] =
            Inr new_title \<and>
          py_format (format_ext pl) (event_description_template cfg) [(''name'', PStr (name c))] =
            Inr new_description \<and>
          find_existing_event pl cfg cal (name c) d = Some (i, ev) \<and> update_existing cfg \<longrightarrow>
          create_birthday_event pl cfg cal c yr = (No_update_needed, cal))"
proof -
  from same have "mset (current_reminders (valarm_list ev)) = mset (reminder_days cfg)"
    using set_eq_iff_mset_eq_distinct by blast
  then have "sort (current_reminders (valarm_list ev)) = sort (reminder_days cfg)"
    by (metis sorted_list_of_multiset_mset)
  with title descr have "\<not> update_needed cfg ev new_title new_description"
    by (simp add: update_needed_def)
  with date have
    "update_existing_event pl cfg cal (i, ev) c yr new_title new_description = (No_update_needed, cal)"
    by (simp add: update_existing_event_def)
  with date show ?thesis
    by (simp add: create_birthday_event_def)
qed

theorem reminders_compared_without_order_witness:
  "current_reminders (valarm_list reminded_event) = [7, 1] \<and>
   reminder_days two_reminder_config = [1, 7] \<and>
   update_existing_event example_platform two_reminder_config [reminded_event] (0, reminded_event)
     bob 2025 ''Bob's Birthday'' ''Birthday of Bob'' =
     (No_update_needed, [reminded_event]) \<and>
   create_birthday_event example_platform two_reminder_config [reminded_event] bob 2025 =
     (No_update_needed, [reminded_event])"
proof -
  have cr: "current_reminders (valarm_list reminded_event) = [7, 1]"
    by code_simp
  have rd: "reminder_days two_reminder_config = [1, 7]"
    by code_simp
  have same: "mset (current_reminders (valarm_list reminded_event)) = mset (reminder_days two_reminder_config) \<or>
      (distinct (current_reminders (valarm_list reminded_event)) \<and> distinct (reminder_days two_reminder_config) \<and>
       set (current_reminders (valarm_list reminded_event)) = set (reminder_days two_reminder_config))"
    by (simp add: cr rd add_mset_commute)
  have title: "current_title reminded_event = ''Bob's Birthday''"
    by code_simp
  have descr: "current_description reminded_event = ''Birthday of Bob''"
    by code_simp
  have date: "replace_year (birthday bob) 2025 = Inr (june_15 2025)"
    by code_simp
  have t: "py_format (format_ext example_platform) (event_title_template two_reminder_config)
             [(''name'', PStr (name bob))] = Inr ''Bob's Birthday''"
    by code_simp
  have ds: "py_format (format_ext example_platform) (event_description_template two_reminder_config)
              [(''name'', PStr (name bob))] = Inr ''Birthday of Bob''"
    by code_simp
  have found: "find_existing_event example_platform two_reminder_config [reminded_event] (name bob)
                 (june_15 2025) = Some (0, reminded_event)"
    by code_simp
  have upd: "update_existing two_reminder_config"
    by code_simp
  from reminders_compared_without_order
         [OF same title descr date, of example_platform "[reminded_event]" 0]
    t ds found upd cr rd
  show ?thesis by blast
qed

section \<open>The identifier of a created event\<close>

lemma replace_one_char:
  "py_replace [a] new s = concat (map (\<lambda>x. if x = a then new else [x]) s)"
  by (induction s) auto

lemma lower_char_space: "lower_char x = CHR '' '' \<longleftrightarrow> x = CHR '' ''"
  by (auto simp: lower_char_def split: option.splits if_splits)

lemma ascii_replace: "ascii_text (py_replace '' '' ''-'' nm) = ascii_text nm"
  unfolding replace_one_char ascii_text_def
  by (induction nm) (auto simp: is_ascii_def)

lemma lower_replace_commute:
  assumes "ascii_text nm \<or>
           lx (py_replace '' '' ''-'' nm) = py_replace '' '' ''-'' (lx nm)"
  shows "py_lower lx (py_replace '' '' ''-'' nm) = py_replace '' '' ''-'' (py_lower lx nm)"
proof (cases "ascii_text nm")
  case True
  have "lower_char (CHR ''-'') = CHR ''-''" by (simp add: lower_char_def)
  then have "map lower_char (py_replace '' '' ''-'' nm) = py_replace '' '' ''-'' (map lower_char nm)"
    unfolding replace_one_char
    by (induction nm) (auto simp: lower_char_space)
  with True show ?thesis
    by (simp add: py_lower_def ascii_replace)
next
  case False
  with assms show ?thesis
    by (simp add: py_lower_def ascii_replace)
qed

lemma digit_char_mod: "digit_char (n mod 10) = digit_char n"
  by (simp add: digit_char_def)

lemma digit_char_0: "digit_char 0 = CHR ''0''"
  by (simp add: digit_char_def)

lemma digits_of_small: "n < 10 \<Longrightarrow> digits_of n = [digit_char n]"
  by (simp add: digits_of.simps)

lemma digits_of_step: "10 \<le> n \<Longrightarrow> digits_of n = digits_of (n div 10) @ [digit_char n]"
  by (subst digits_of.simps) (simp add: digit_char_mod)

lemma zero_pad_2: "n < 100 \<Longrightarrow> zero_pad 2 (digits_of n) = [digit_char (n div 10), digit_char n]"
proof (cases "n < 10")
  case True
  then show ?thesis by (simp add: digits_of_small zero_pad_def digit_char_0)
next
  case False
  assume "n < 100"
  with False have "n div 10 < 10" "10 \<le> n" by auto
  then show ?thesis by (simp add: digits_of_step digits_of_small zero_pad_def)
qed

lemma zero_pad_4:
  assumes "n < 10000"
  shows "zero_pad 4 (digits_of n) =
           [digit_char (n div 1000), digit_char (n div 100), digit_char (n div 10), digit_char n]"
proof -
  consider "n < 10" | "10 \<le> n" "n < 100" | "100 \<le> n" "n < 1000" | "1000 \<le> n"
    by linarith
  then show ?thesis
  proof cases
    case 1
    then show ?thesis by (simp add: digits_of_small zero_pad_def digit_char_0 numeral_3_eq_3)
  next
    case 2
    then have "n div 10 < 10" by auto
    with 2 show ?thesis
      by (simp add: digits_of_step digits_of_small zero_pad_def digit_char_0 numeral_2_eq_2)
  next
    case 3
    then have "10 \<le> n div 10" "n div 10 div 10 < 10" "10 \<le> n" by auto
    with 3 show ?thesis
      by (simp add: digits_of_step digits_of_small zero_pad_def digit_char_0 div_mult2_eq [symmetric])
  next
    case 4
    with assms have "10 \<le> n div 10" "10 \<le> n div 10 div 10" "n div 10 div 10 div 10 < 10" "10 \<le> n"
      by auto
    then show ?thesis
      by (simp add: digits_of_step digits_of_small zero_pad_def div_mult2_eq [symmetric])
  qed
qed

lemma strftime_valid:
  assumes "make_date y m dd = Inr d" and "1000 \<le> y \<or> pads"
  shows "strftime_Ymd pads d = spec_YYYYMMDD d"
proof -
  from assms(1) have d: "d = \<lparr>dt_year = y, dt_month = m, dt_day = dd\<rparr>"
    and r: "1 \<le> y" "y \<le> 9999" "1 \<le> m" "m \<le> 12" "1 \<le> dd" "dd \<le> days_in_month y m"
    by (auto simp: make_date_def split: if_splits)
  from r have "dd \<le> 31" by (auto simp: days_in_month_def split: if_splits)
  with r have "nat y < 10000" "nat m < 100" "nat dd < 100" by auto
  with assms(2) show ?thesis
    by (simp add: d strftime_Ymd_def spec_YYYYMMDD_def zero_pad_4 zero_pad_2 Let_def)
qed

lemma event_uid_spec:
  assumes "make_date y m dd = Inr d" and "1000 \<le> y \<or> pads_year pl"
    and "ascii_text nm \<or>
         lower_ext pl (py_replace '' '' ''-'' nm) = py_replace '' '' ''-'' (lower_ext pl nm)"
  shows "event_uid pl nm d = spec_uid (lower_ext pl) nm d"
  using strftime_valid [OF assms(1,2)] lower_replace_commute [OF assms(3)]
  by (simp add: event_uid_def spec_uid_def spec_normalized_def)

text \<open>
  The identifier is plain, and so is read back as it was written, when the name is ASCII
  and has no control character.
\<close>

lemma digit_char_in: "digit_char n \<in> set ''0123456789''"
proof -
  have "n mod 10 < length ''0123456789''" by simp
  then show ?thesis unfolding digit_char_def by (rule nth_mem)
qed

lemma digits_of_in: "set (digits_of n) \<subseteq> set ''0123456789''"
proof (induction n rule: digits_of.induct)
  case (1 n)
  then show ?case
    using digit_char_in by (subst digits_of.simps) auto
qed

lemma digits_of_nonempty: "digits_of n \<noteq> []"
  by (subst digits_of.simps) simp

lemma zero_pad_in: "set (zero_pad w (digits_of n)) \<subseteq> set ''0123456789''"
  using digits_of_in [of n] by (auto simp: zero_pad_def)

lemma zero_pad_nonempty: "zero_pad w (digits_of n) \<noteq> []"
  by (simp add: zero_pad_def digits_of_nonempty)

lemma digit_not_control: "c \<in> set ''0123456789'' \<Longrightarrow> \<not> is_control c \<and> c \<noteq> CHR '' ''"
  by (auto simp: is_control_def)

lemma strftime_digits: "set (strftime_Ymd pads d) \<subseteq> set ''0123456789''"
  unfolding strftime_Ymd_def
  using zero_pad_in digits_of_in by (simp del: set_simps list.set)

lemma strftime_nonempty: "strftime_Ymd pads d \<noteq> []"
  by (simp add: strftime_Ymd_def zero_pad_nonempty)

lemma lower_char_control: "is_control (lower_char c) = is_control c"
  by (auto simp: lower_char_def is_control_def split: option.splits if_splits)

lemma replace_control:
  "list_ex is_control (py_replace '' '' ''-'' nm) = list_ex is_control nm"
  unfolding replace_one_char
  by (induction nm) (auto simp: is_control_def)

lemma event_uid_plain:
  assumes "ascii_text nm" and "\<not> list_ex is_control nm"
  shows "plain_text (event_uid pl nm d)"
proof -
  let ?n = "map lower_char (py_replace '' '' ''-'' nm)"
  let ?s = "strftime_Ymd (pads_year pl) d"
  have u: "event_uid pl nm d = ''birthday-'' @ ?n @ ''-'' @ ?s"
    using assms(1) by (simp add: event_uid_def py_lower_def ascii_replace)
  have n: "\<not> list_ex is_control ?n"
    using assms(2) replace_control [of nm]
    by (simp add: list_ex_iff lower_char_control)
  have s: "\<not> list_ex is_control ?s" "last ?s \<noteq> CHR '' ''"
    using strftime_digits [of "pads_year pl" d] strftime_nonempty [of "pads_year pl" d] digit_not_control
    by (auto simp: list_ex_iff dest: last_in_set)
  have b: "\<not> list_ex is_control ''birthday-''" "\<not> is_control (CHR ''-'')"
    by (simp_all add: is_control_def)
  show ?thesis
    unfolding u plain_text_def
    using n s b strftime_nonempty [of "pads_year pl" d]
    by (simp add: list_ex_append)
qed

text \<open>
  Claim C2, as the program has it. The identifier of the event that
  \<open>create_birthday_event\<close> creates is a function of the name and of the date made of the
  target year and the month and day of the birthday (and of nothing else in the
  configuration or the calendar): it is \<open>event_uid\<close> of the two, as the calendar gives it
  back, which is \<open>event_uid\<close> itself when the name is ASCII and has no control character.
  When the target year is 1000 or later, or the platform fills the year with zeros,
  \<open>event_uid\<close> is the identifier of the specification: \<^verbatim>\<open>birthday-\<close>, the name
  lowercased with spaces replaced by hyphens, a hyphen, and the date as YYYYMMDD. (For a
  name that is not all ASCII this takes that lowering and replacing spaces can be done in
  either order.) For Ada Lovelace, 10 December, 2025, it is
  \<^verbatim>\<open>birthday-ada-lovelace-20251210\<close> on every platform.
\<close>

theorem uid_deterministic:
  "(create_birthday_event pl cfg cal c yr = (Created, cal') \<longrightarrow>
      (\<exists>ev. cal' = cal @ [ev] \<and>
            uid ev = Some (stored_text pl (event_uid pl (name c)
                       \<lparr>dt_year = yr, dt_month = dt_month (birthday c),
                        dt_day = dt_day (birthday c)\<rparr>)))) \<and>
   (ascii_text (name c) \<and> \<not> list_ex is_control (name c) \<longrightarrow>
      stored_text pl (event_uid pl (name c) d) = event_uid pl (name c) d) \<and>
   (replace_year (birthday c) yr = Inr d \<and> (1000 \<le> yr \<or> pads_year pl) \<and>
    (ascii_text (name c) \<or>
     lower_ext pl (py_replace '' '' ''-'' (name c)) = py_replace '' '' ''-'' (lower_ext pl (name c)))
      \<longrightarrow> event_uid pl (name c) d = spec_uid (lower_ext pl) (name c) d) \<and>
   event_uid pl ''Ada Lovelace'' \<lparr>dt_year = 2025, dt_month = 12, dt_day = 10\<rparr> =
     ''birthday-ada-lovelace-20251210''"
proof -
  have ada: "event_uid pl ''Ada Lovelace'' \<lparr>dt_year = 2025, dt_month = 12, dt_day = 10\<rparr> =
     ''birthday-ada-lovelace-20251210''"
    by code_simp
  have plain: "stored_text pl (event_uid pl (name c) d) = event_uid pl (name c) d"
    if "ascii_text (name c)" "\<not> list_ex is_control (name c)"
    using event_uid_plain [OF that] by (simp add: stored_text_def)
  have gen: "event_uid pl (name c) d = spec_uid (lower_ext pl) (name c) d"
    if "replace_year (birthday c) yr = Inr d" "1000 \<le> yr \<or> pads_year pl"
      "ascii_text (name c) \<or>
       lower_ext pl (py_replace '' '' ''-'' (name c)) = py_replace '' '' ''-'' (lower_ext pl (name c))"
    using that event_uid_spec [of yr "dt_month (birthday c)" "dt_day (birthday c)" d pl "name c"]
    by (simp add: replace_year_def)
  have "\<exists>ev. cal' = cal @ [ev] \<and>
            uid ev = Some (stored_text pl (event_uid pl (name c)
                       \<lparr>dt_year = yr, dt_month = dt_month (birthday c),
                        dt_day = dt_day (birthday c)\<rparr>))"
    if "create_birthday_event pl cfg cal c yr = (Created, cal')"
  proof -
    from that obtain d t ds nd alarms where h:
      "replace_year (birthday c) yr = Inr d"
      "cal' = cal @ [new_event pl cfg (name c) d nd t ds alarms]"
      by (auto elim: create_Created_inv)
    from h(1) have "d = \<lparr>dt_year = yr, dt_month = dt_month (birthday c), dt_day = dt_day (birthday c)\<rparr>"
      by (auto simp: replace_year_def make_date_def split: if_splits)
    with h(2) show ?thesis
      by (simp add: new_event_def)
  qed
  with gen ada plain show ?thesis by blast
qed

text \<open>
  The theorem at work: Bob, 15 June, 2025.
\<close>

theorem uid_deterministic_witness:
  "fst (create_birthday_event example_platform ascii_title_config [] bob 2025) = Created \<and>
   map uid (snd (create_birthday_event example_platform ascii_title_config [] bob 2025)) =
     [Some ''birthday-bob-20250615''] \<and>
   spec_uid (lower_ext example_platform) ''Bob'' (june_15 2025) = ''birthday-bob-20250615'' \<and>
   event_uid example_platform ''Bob'' (june_15 2025) = ''birthday-bob-20250615''"
proof -
  let ?c1 = "snd (create_birthday_event example_platform ascii_title_config [] bob 2025)"
  have fa: "fst (create_birthday_event example_platform ascii_title_config [] bob 2025) = Created"
    by code_simp
  then have a: "create_birthday_event example_platform ascii_title_config [] bob 2025 = (Created, ?c1)"
    by (simp add: prod_eq_iff)
  have b: "name bob = ''Bob''"
    "\<lparr>dt_year = 2025, dt_month = dt_month (birthday bob), dt_day = dt_day (birthday bob)\<rparr> = june_15 2025"
    "replace_year (birthday bob) 2025 = Inr (june_15 2025)"
    "ascii_text ''Bob''" "\<not> list_ex is_control ''Bob''"
    by code_simp+
  have s: "spec_uid (lower_ext example_platform) ''Bob'' (june_15 2025) = ''birthday-bob-20250615''"
    by code_simp
  from uid_deterministic [of example_platform ascii_title_config "[]" bob 2025 ?c1 "june_15 2025"] a b
  have "(\<exists>ev. ?c1 = [ev] \<and>
           uid ev = Some (stored_text example_platform (event_uid example_platform ''Bob'' (june_15 2025))))"
    and "stored_text example_platform (event_uid example_platform ''Bob'' (june_15 2025)) =
           event_uid example_platform ''Bob'' (june_15 2025)"
    and "event_uid example_platform ''Bob'' (june_15 2025) =
           spec_uid (lower_ext example_platform) ''Bob'' (june_15 2025)"
    by auto
  with fa s show ?thesis by auto
qed

text \<open>
  Claim C2 as it is stated fails for a target year below 1000 where \<^verbatim>\<open>strftime\<close> does
  not fill the year, as with CPython on Linux: for Bob, 15 June, 925, the program gives
  \<^verbatim>\<open>birthday-bob-9250615\<close>, which has seven digits, and the specification
  \<^verbatim>\<open>birthday-bob-09250615\<close>.
\<close>

theorem uid_deterministic_counterexample:
  "\<not> pads_year example_platform \<and>
   fst (create_birthday_event example_platform ascii_title_config [] bob 925) = Created \<and>
   map uid (snd (create_birthday_event example_platform ascii_title_config [] bob 925)) =
     [Some ''birthday-bob-9250615''] \<and>
   event_uid example_platform ''Bob'' (june_15 925) = ''birthday-bob-9250615'' \<and>
   spec_uid (lower_ext example_platform) ''Bob'' (june_15 925) = ''birthday-bob-09250615''"
  by code_simp

lemma event_matches_with_summary:
  "summary ev = Some s \<Longrightarrow>
     event_matches pl cfg nm ev =
       (summary_matches pl cfg nm s \<or> (\<exists>u. uid ev = Some u \<and> prefix (expected_uid pl nm) u))"
  by (auto simp: event_matches_def split: option.splits)

text \<open>
  Claim C4 fails on the program. In \<^verbatim>\<open>_find_existing_event\<close> the check of the
  identifier stands inside \<^verbatim>\<open>if hasattr(cal.vevent, 'summary')\<close>: an event without a
  summary is never matched, whatever its identifier. With a summary present, either check
  alone is enough (lemma \<open>event_matches_with_summary\<close>). Here the program at the failing
  input: the only event of the day has the identifier that the program itself would give,
  and no summary; the lookup finds nothing, and the program creates a second event.
\<close>

theorem summaryless_event_not_matched:
  "summary bare_uid_event = None \<and>
   uid bare_uid_event = Some ''birthday-bob-20250615'' \<and>
   prefix (expected_uid pl (name bob)) ''birthday-bob-20250615'' \<and>
   find_existing_event pl default_config [bare_uid_event] (name bob) (june_15 2025) = None \<and>
   fst (create_birthday_event pl default_config [bare_uid_event] bob 2025) = Created"
  by code_simp

text \<open>
  The default configuration is the same on every platform: the values that
  \<^verbatim>\<open>_load_config\<close> strips, lowers or reads as numbers are ASCII.
\<close>

lemma default_config_any_platform: "load_config pl Map.empty = default_config"
  by code_simp

text \<open>
  Claim C9, as the program has it. The card with the name Bob and the birthday
  \<^verbatim>\<open>--06-15\<close> gives the contact Bob, born on 15 June of the placeholder year 2000. Under
  the default configuration, in a calendar where no event of Bob is found on 2025-06-15,
  the call for 2025 creates one event: dated 2025-06-15, all day, identifier
  \<^verbatim>\<open>birthday-bob-20250615\<close>, yearly recurrence, and one alarm one day before, whose
  message is rendered from the default reminder template:
  \<^verbatim>\<open>Reminder: Bob's birthday is in 1 day!\<close>.
\<close>

theorem default_scenario:
  assumes "find_existing_event pl default_config cal ''Bob'' (june_15 2025) = None"
  shows "parse_vcard pl \<lparr>vc_fn = Some ''Bob'', vc_n = None, vc_bday = Some ''--06-15''\<rparr> = Some bob \<and>
         reminder_days default_config = [1] \<and>
         create_birthday_event pl default_config cal bob 2025 = (Created, cal @ [scenario_event])"
proof -
  have p: "parse_vcard pl \<lparr>vc_fn = Some ''Bob'', vc_n = None, vc_bday = Some ''--06-15''\<rparr> = Some bob"
    by code_simp
  have rd: "reminder_days default_config = [1]"
    by code_simp
  have d: "replace_year (birthday bob) 2025 = Inr (june_15 2025)"
    by code_simp
  have nm: "name bob = ''Bob''"
    by code_simp
  have t: "py_format (format_ext pl) (event_title_template default_config) [(''name'', PStr ''Bob'')] =
             Inr (take 9 default_title @ '' Bob's Birthday'')"
    by code_simp
  have ds: "py_format (format_ext pl) (event_description_template default_config)
              [(''name'', PStr ''Bob'')] = Inr ''Birthday of Bob''"
    by code_simp
  have nd: "add_one_day (june_15 2025) = Inr \<lparr>dt_year = 2025, dt_month = 6, dt_day = 16\<rparr>"
    by code_simp
  have al: "build_alarms (format_ext pl) default_config ''Bob'' [1] =
      Inr [\<lparr>action = ''DISPLAY'', trigger = Some (Timedelta (- 1)),
            alarm_description = Some ''Reminder: Bob's birthday is in 1 day!''\<rparr>]"
    by code_simp
  have ev: "new_event pl default_config ''Bob'' (june_15 2025) \<lparr>dt_year = 2025, dt_month = 6, dt_day = 16\<rparr>
      (take 9 default_title @ '' Bob's Birthday'') ''Birthday of Bob''
      [\<lparr>action = ''DISPLAY'', trigger = Some (Timedelta (- 1)),
            alarm_description = Some ''Reminder: Bob's birthday is in 1 day!''\<rparr>] = scenario_event"
    by code_simp
  have "create_birthday_event pl default_config cal bob 2025 = (Created, cal @ [scenario_event])"
    unfolding create_birthday_event_def
    by (simp only: d nm t ds assms nd al rd ev sum.case option.case)
  with p rd show ?thesis by simp
qed

theorem default_scenario_witness:
  "find_existing_event example_platform default_config [] ''Bob'' (june_15 2025) = None \<and>
   create_birthday_event example_platform default_config [] bob 2025 = (Created, [scenario_event])"
proof -
  have a: "find_existing_event example_platform default_config [] ''Bob'' (june_15 2025) = None"
    by code_simp
  from default_scenario [OF a] a show ?thesis by simp
qed

text \<open>
  Claim C9 as it is stated fails in the message of the alarm: \<^verbatim>\<open>Tomorrow is Bob's
  birthday!\<close> is the fallback phrase for a template that does not render, and the default
  template renders.
\<close>

theorem default_scenario_counterexample:
  "map alarm_description
     (valarm_list (last (snd (create_birthday_event example_platform default_config [] bob 2025)))) =
     [Some ''Reminder: Bob's birthday is in 1 day!''] \<and>
   ''Reminder: Bob's birthday is in 1 day!'' \<noteq> ''Tomorrow is Bob's birthday!''"
  by code_simp

section \<open>Reminder messages\<close>

text \<open>
  Where \<open>new\<close> starts with a character that the text \<open>q\<close> does not have, a
  start \<open>q\<close> of the result of a replacement is a start of the original.
\<close>

lemma prefix_of_replace:
  assumes "old \<noteq> []" and "new \<noteq> []" and "hd new \<notin> set q"
  shows "prefix q (py_replace old new s) \<Longrightarrow> prefix q s"
  using assms
proof (induction old new s arbitrary: q rule: py_replace.induct)
  case (1 old new)
  then show ?case by simp
next
  case (2 old new c cs)
  show ?case
  proof (cases "prefix old (c # cs)")
    case True
    with 2 have "prefix q (new @ py_replace old new (drop (length old) (c # cs)))" by simp
    moreover from 2 have "q = [] \<or> hd q \<noteq> hd new" by (cases q) auto
    ultimately have "q = []" using \<open>new \<noteq> []\<close>
      by (cases q; cases new) auto
    then show ?thesis by simp
  next
    case False
    with 2 have p: "prefix q (c # py_replace old new cs)" by simp
    show ?thesis
    proof (cases q)
      case Nil
      then show ?thesis by simp
    next
      case (Cons a q')
      with p have "a = c" "prefix q' (py_replace old new cs)" by auto
      moreover from Cons 2 have "hd new \<notin> set q'" by auto
      ultimately have "prefix q' cs" using 2 False by auto
      with \<open>a = c\<close> Cons show ?thesis by simp
    qed
  qed
qed

lemma proper_suffix_in_tl:
  assumes "suffix p1 new" and "p1 \<noteq> new"
  shows "set p1 \<subseteq> set (tl new)"
proof -
  from assms obtain xs where "new = xs @ p1" "xs \<noteq> []" by (auto simp: suffix_def)
  then show ?thesis by (cases xs) auto
qed

lemma glue:
  assumes "p \<noteq> []" and "\<not> sublist p new" and "\<not> prefix new p" and "hd p \<notin> set (tl new)"
    and "\<not> sublist p t"
  shows "\<not> sublist p (new @ t)"
proof
  assume "sublist p (new @ t)"
  with assms(2,5) obtain p1 p2 where s: "p = p1 @ p2" "suffix p1 new" "prefix p2 t"
    by (auto simp: sublist_append)
  show False
  proof (cases "p1 = []")
    case True
    with s assms(5) show False by auto
  next
    case False
    show False
    proof (cases "p1 = new")
      case True
      with s assms(3) show False by simp
    next
      case ne: False
      from False s(1) have "hd p = hd p1" "hd p1 \<in> set p1" by auto
      with proper_suffix_in_tl [OF s(2) ne] assms(4) show False by auto
    qed
  qed
qed

lemma replace_removes:
  assumes "old \<noteq> []" and "new \<noteq> []" and "\<not> sublist old new" and "\<not> prefix new old"
    and "hd old \<notin> set (tl new)" and "hd new \<notin> set (tl old)"
  shows "\<not> sublist old (py_replace old new s)"
  using assms
proof (induction old new s rule: py_replace.induct)
  case (1 old new)
  then show ?case by simp
next
  case (2 old new c cs)
  show ?case
  proof (cases "prefix old (c # cs)")
    case True
    with 2 have "\<not> sublist old (py_replace old new (drop (length old) (c # cs)))" by simp
    with 2 True show ?thesis using glue [of old new] by simp
  next
    case False
    with 2 have ih: "\<not> sublist old (py_replace old new cs)" by simp
    have "\<not> prefix old (c # py_replace old new cs)"
    proof
      assume a: "prefix old (c # py_replace old new cs)"
      with \<open>old \<noteq> []\<close> obtain o' where o: "old = c # o'" "prefix o' (py_replace old new cs)"
        by (cases old) auto
      with 2 have "hd new \<notin> set o'" by simp
      from prefix_of_replace [OF \<open>old \<noteq> []\<close> \<open>new \<noteq> []\<close> this o(2)] o(1) False
      show False by simp
    qed
    with ih False 2 show ?thesis by (simp add: sublist_Cons_right)
  qed
qed

lemma replace_keeps_absent:
  assumes "old \<noteq> []" and "new \<noteq> []" and "p \<noteq> []" and "\<not> sublist p new" and "\<not> prefix new p"
    and "hd p \<notin> set (tl new)" and "hd new \<notin> set (tl p)"
  shows "\<not> sublist p s \<Longrightarrow> \<not> sublist p (py_replace old new s)"
  using assms
proof (induction old new s rule: py_replace.induct)
  case (1 old new)
  then show ?case by simp
next
  case (2 old new c cs)
  show ?case
  proof (cases "prefix old (c # cs)")
    case True
    have "sublist (drop (length old) (c # cs)) (c # cs)" by (rule sublist_drop)
    with 2 have "\<not> sublist p (drop (length old) (c # cs))"
      using sublist_order.order_trans by blast
    with 2 True have "\<not> sublist p (py_replace old new (drop (length old) (c # cs)))" by simp
    with 2 True show ?thesis using glue [of p new] by simp
  next
    case False
    from 2 have np: "\<not> prefix p (c # cs)" "\<not> sublist p cs" by (auto simp: sublist_Cons_right)
    with 2 False have ih: "\<not> sublist p (py_replace old new cs)" by simp
    have "\<not> prefix p (c # py_replace old new cs)"
    proof
      assume a: "prefix p (c # py_replace old new cs)"
      with \<open>p \<noteq> []\<close> obtain p' where o: "p = c # p'" "prefix p' (py_replace old new cs)"
        by (cases p) auto
      with 2 have "hd new \<notin> set p'" by simp
      from prefix_of_replace [OF \<open>old \<noteq> []\<close> \<open>new \<noteq> []\<close> this o(2)] o(1) np
      show False by simp
    qed
    with ih False 2 show ?thesis by (simp add: sublist_Cons_right)
  qed
qed

lemma today_message_clean:
  "\<not> sublist ''in 0 day''
      (py_replace ''is in today'' ''is today''
        (py_replace ''in 0 day'' ''today'' (py_replace ''in 0 days'' ''today'' m)))"
proof -
  have "\<not> sublist ''in 0 day'' (py_replace ''in 0 day'' ''today'' (py_replace ''in 0 days'' ''today'' m))"
    by (rule replace_removes) (simp_all add: sublist_code)
  then show ?thesis
    by (rule replace_keeps_absent [rotated 7]) (simp_all add: sublist_code)
qed


lemma replace_by_prefix:
  assumes "old = new @ [z]" and "new \<noteq> []" and "hd new \<notin> set (tl old)"
  shows "\<not> sublist (old @ [z]) s \<Longrightarrow> \<not> sublist old (py_replace old new s)"
  using assms
proof (induction old new s rule: py_replace.induct)
  case (1 old new)
  then show ?case by simp
next
  case (2 old new c cs)
  from 2 have old: "old \<noteq> []" by simp
  have z: "hd new \<notin> set [z]"
    using "2.prems" by (cases new) auto
  show ?case
  proof (cases "prefix old (c # cs)")
    case True
    then obtain rest where rest: "c # cs = old @ rest" by (auto simp: prefix_def)
    then have d: "drop (length old) (c # cs) = rest" by simp
    have "sublist rest (c # cs)" by (metis rest sublist_append_leftI)
    with "2.prems" have "\<not> sublist (old @ [z]) rest"
      using sublist_order.order_trans by blast
    with 2 True old d have ih: "\<not> sublist old (py_replace old new rest)" by simp
    have ns: "\<not> prefix [z] rest"
    proof
      assume "prefix [z] rest"
      then obtain r' where "rest = [z] @ r'" by (auto simp: prefix_def)
      with rest have "c # cs = (old @ [z]) @ r'" by simp
      then have "sublist (old @ [z]) (c # cs)" by (metis sublist_append_rightI)
      with "2.prems" show False by simp
    qed
    have nt: "\<not> prefix [z] (py_replace old new rest)"
      using prefix_of_replace [OF old \<open>new \<noteq> []\<close> z] ns by blast
    have "\<not> sublist old (new @ py_replace old new rest)"
    proof
      assume "sublist old (new @ py_replace old new rest)"
      then have "sublist old new \<or> sublist old (py_replace old new rest) \<or>
          (\<exists>p1 p2. old = p1 @ p2 \<and> suffix p1 new \<and> prefix p2 (py_replace old new rest))"
        by (simp only: sublist_append)
      then consider "sublist old new" | "sublist old (py_replace old new rest)"
        | p1 p2 where "old = p1 @ p2" "suffix p1 new" "prefix p2 (py_replace old new rest)"
        by blast
      then show False
      proof cases
        case 1
        then have "length old \<le> length new" by (rule sublist_length_le)
        with "2.prems" show False by simp
      next
        case 2
        with ih show False by simp
      next
        case 3
        show False
        proof (cases "p1 = []")
          case True
          with 3 ih show False by auto
        next
          case False
          show False
          proof (cases "p1 = new")
            case True
            with 3 "2.prems" have "p2 = [z]" by simp
            with 3 nt show False by simp
          next
            case ne: False
            from False 3(1) "2.prems" have "hd p1 = hd new" by (cases p1; cases new) auto
            moreover from False have "hd p1 \<in> set p1" by simp
            moreover have "set (tl new) \<subseteq> set (tl old)"
              using "2.prems" by (cases new) auto
            ultimately show False
              using proper_suffix_in_tl [OF 3(2) ne] "2.prems" by auto
          qed
        qed
      qed
    qed
    with True old d show ?thesis by simp
  next
    case False
    from "2.prems" have "\<not> sublist (old @ [z]) cs" by (auto simp: sublist_Cons_right)
    with 2 False old have ih: "\<not> sublist old (py_replace old new cs)" by simp
    have "\<not> prefix old (c # py_replace old new cs)"
    proof
      assume a: "prefix old (c # py_replace old new cs)"
      with old obtain o' where o: "old = c # o'" "prefix o' (py_replace old new cs)"
        by (cases old) auto
      from o(1) "2.prems"(4) have "hd new \<notin> set o'" by (metis list.sel(3))
      from prefix_of_replace [OF old \<open>new \<noteq> []\<close> this o(2)] o(1) False
      show False by simp
    qed
    with ih False old show ?thesis by (simp add: sublist_Cons_right)
  qed
qed

lemma plural_fixed:
  assumes "\<not> sublist ''1 dayss'' m"
  shows "\<not> sublist ''1 days'' (py_replace ''1 days'' ''1 day'' m)"
  using replace_by_prefix [of "''1 days''" "''1 day''" "CHR ''s''" m] assms by simp


text \<open>
  Claim C5, as the program has it. For a reminder on the day itself: when the template
  has no \<^verbatim>\<open>{days}\<close>, the message is exactly \<^verbatim>\<open>Today is <name>'s birthday!\<close>; when
  it has and renders, the message contains neither \<^verbatim>\<open>in 0 day\<close> nor
  \<^verbatim>\<open>in 0 days\<close>, the phrases that the program rewrites to \<^verbatim>\<open>today\<close>. For a reminder
  one day before, when the template renders, the message does not contain \<^verbatim>\<open>1 days\<close>,
  unless the rendered text had \<^verbatim>\<open>1 dayss\<close>.
\<close>

theorem reminder_message_normalized:
  "(\<not> sublist ''{days}'' (reminder_template cfg) \<longrightarrow>
      format_reminder_message fx cfg nm 0 = Inr (''Today is '' @ nm @ '''s birthday!'')) \<and>
   (sublist ''{days}'' (reminder_template cfg) \<and>
    py_format fx (reminder_template cfg) (reminder_kwargs nm 0) = Inr r \<longrightarrow>
      (\<exists>m. format_reminder_message fx cfg nm 0 = Inr m \<and>
           \<not> sublist ''in 0 day'' m \<and> \<not> sublist ''in 0 days'' m)) \<and>
   (py_format fx (reminder_template cfg) (reminder_kwargs nm 1) = Inr r \<and> \<not> sublist ''1 dayss'' r \<longrightarrow>
      (\<exists>m. format_reminder_message fx cfg nm 1 = Inr m \<and> \<not> sublist ''1 days'' m))"
proof (intro conjI impI)
  assume "\<not> sublist ''{days}'' (reminder_template cfg)"
  then show "format_reminder_message fx cfg nm 0 = Inr (''Today is '' @ nm @ '''s birthday!'')"
    by (simp add: format_reminder_message_def render_reminder_def)
next
  assume a: "sublist ''{days}'' (reminder_template cfg) \<and>
    py_format fx (reminder_template cfg) (reminder_kwargs nm 0) = Inr r"
  let ?m = "py_replace ''is in today'' ''is today''
              (py_replace ''in 0 day'' ''today'' (py_replace ''in 0 days'' ''today'' r))"
  from a have "format_reminder_message fx cfg nm 0 = Inr ?m"
    by (simp add: format_reminder_message_def render_reminder_def)
  moreover have n: "\<not> sublist ''in 0 day'' ?m"
    by (rule today_message_clean)
  moreover have "\<not> sublist ''in 0 days'' ?m"
  proof
    assume "sublist ''in 0 days'' ?m"
    moreover have "sublist ''in 0 day'' ''in 0 days''"
      by (simp add: sublist_code)
    ultimately have "sublist ''in 0 day'' ?m"
      using sublist_order.order_trans by blast
    with n show False by simp
  qed
  ultimately show "\<exists>m. format_reminder_message fx cfg nm 0 = Inr m \<and>
           \<not> sublist ''in 0 day'' m \<and> \<not> sublist ''in 0 days'' m"
    by blast
next
  assume a: "py_format fx (reminder_template cfg) (reminder_kwargs nm 1) = Inr r \<and>
    \<not> sublist ''1 dayss'' r"
  then have "format_reminder_message fx cfg nm 1 = Inr (py_replace ''1 days'' ''1 day'' r)"
    by (simp add: format_reminder_message_def render_reminder_def)
  moreover from a have "\<not> sublist ''1 days'' (py_replace ''1 days'' ''1 day'' r)"
    using plural_fixed by blast
  ultimately show "\<exists>m. format_reminder_message fx cfg nm 1 = Inr m \<and> \<not> sublist ''1 days'' m"
    by blast
qed

text \<open>
  The theorem at work, under the default configuration and under a template without
  \<^verbatim>\<open>{days}\<close>.
\<close>

theorem reminder_message_normalized_witness:
  "format_reminder_message plain_formatter default_config ''Bob'' 0 =
     Inr ''Reminder: Bob's birthday is today!'' \<and>
   \<not> sublist ''in 0 days'' ''Reminder: Bob's birthday is today!'' \<and>
   format_reminder_message plain_formatter default_config ''Bob'' 1 =
     Inr ''Reminder: Bob's birthday is in 1 day!'' \<and>
   \<not> sublist ''1 days'' ''Reminder: Bob's birthday is in 1 day!'' \<and>
   format_reminder_message plain_formatter greeting_only_config ''Bob'' 0 =
     Inr ''Today is Bob's birthday!''"
proof -
  have t: "sublist ''{days}'' (reminder_template default_config)"
    by code_simp
  have r0: "py_format plain_formatter (reminder_template default_config) (reminder_kwargs ''Bob'' 0) =
              Inr ''Reminder: Bob's birthday is in 0 days!''"
    by code_simp
  have r1: "py_format plain_formatter (reminder_template default_config) (reminder_kwargs ''Bob'' 1) =
              Inr ''Reminder: Bob's birthday is in 1 days!''"
    by code_simp
  have n1: "\<not> sublist ''1 dayss'' ''Reminder: Bob's birthday is in 1 days!''"
    by code_simp
  have g: "\<not> sublist ''{days}'' (reminder_template greeting_only_config)"
    by code_simp
  have m0: "format_reminder_message plain_formatter default_config ''Bob'' 0 =
     Inr ''Reminder: Bob's birthday is today!''"
    by code_simp
  have m1: "format_reminder_message plain_formatter default_config ''Bob'' 1 =
     Inr ''Reminder: Bob's birthday is in 1 day!''"
    by code_simp
  from reminder_message_normalized
         [of default_config plain_formatter "''Bob''" "''Reminder: Bob's birthday is in 0 days!''"]
    t r0 m0
  have c0: "\<not> sublist ''in 0 days'' ''Reminder: Bob's birthday is today!''"
    by auto
  from reminder_message_normalized
         [of default_config plain_formatter "''Bob''" "''Reminder: Bob's birthday is in 1 days!''"]
    r1 n1 m1
  have c1: "\<not> sublist ''1 days'' ''Reminder: Bob's birthday is in 1 day!''"
    by auto
  from reminder_message_normalized
         [of greeting_only_config plain_formatter "''Bob''" "''Reminder: Bob's birthday is in 0 days!''"] g
  have "format_reminder_message plain_formatter greeting_only_config ''Bob'' 0 =
     Inr (''Today is '' @ ''Bob'' @ '''s birthday!'')"
    by blast
  with m0 m1 c0 c1 show ?thesis by simp
qed

text \<open>
  Claim C5 as it is stated fails. Only \<^verbatim>\<open>in 0 days\<close> is rewritten, not every
  \<^verbatim>\<open>0 days\<close>: the template \<^verbatim>\<open>{days} days until the birthday of {name}\<close> gives a
  message on the day itself that starts with \<^verbatim>\<open>0 days\<close>. And a text with \<^verbatim>\<open>1 dayss\<close>
  becomes one with \<^verbatim>\<open>1 days\<close>.
\<close>

theorem reminder_message_normalized_counterexample:
  "format_reminder_message plain_formatter countdown_config ''Bob'' 0 =
     Inr ''0 days until the birthday of Bob'' \<and>
   sublist ''0 days'' ''0 days until the birthday of Bob'' \<and>
   format_reminder_message plain_formatter typo_config ''Bob'' 1 =
     Inr ''1 days until the birthday of Bob'' \<and>
   sublist ''1 days'' ''1 days until the birthday of Bob''"
  by code_simp

text \<open>
  Of the exceptions that the rendering can raise, the three that the \<^verbatim>\<open>except\<close> clause
  names give the fallback phrase.
\<close>

lemma caught_errors_fall_back:
  "render_reminder fx cfg nm days_before = Inl e \<Longrightarrow> caught_by_reminder e \<Longrightarrow>
     format_reminder_message fx cfg nm days_before = Inr (fallback_message nm days_before)"
  by (simp add: format_reminder_message_def)

text \<open>
  Claim C6 fails on the program. The \<^verbatim>\<open>except\<close> clause of
  \<^verbatim>\<open>_format_reminder_message\<close> names \<open>KeyError\<close>, \<open>ValueError\<close> and
  \<open>AttributeError\<close>. A positional placeholder, \<^verbatim>\<open>{0}\<close> or \<^verbatim>\<open>{}\<close>, raises
  \<open>IndexError\<close>, which is none of them: the exception leaves the method, is caught by
  \<open>create_birthday_event\<close>, and the contact gets no event. Here the program at the
  failing input: the template \<^verbatim>\<open>{0}'s birthday is in {days} days!\<close>, Bob, one day before.
\<close>

theorem positional_placeholder_not_caught:
  "format_reminder_message fx positional_config ''Bob'' 1 = Inl IndexError \<and>
   create_birthday_event pl positional_config [] bob 2025 = (Failed IndexError, [])"
  by code_simp

section \<open>The synchronisation pass\<close>

lemma sync_contacts_append:
  "sync_contacts pl cfg yr (xs @ ys) st = sync_contacts pl cfg yr ys (sync_contacts pl cfg yr xs st)"
proof (induction xs arbitrary: st)
  case Nil
  then show ?case by simp
next
  case (Cons x xs)
  obtain n cal where st: "st = (n, cal)" by (cases st)
  show ?case
    unfolding st by (simp add: Cons.IH Let_def split: prod.splits)
qed

lemma failed_leaves_calendar:
  "fst (create_birthday_event pl cfg cal c yr) = Failed e \<Longrightarrow>
     snd (create_birthday_event pl cfg cal c yr) = cal"
  by (auto simp: create_birthday_event_def update_existing_event_def
      split: sum.splits option.splits if_splits)

text \<open>
  Claim C3, as the program has it. A pass that connected to both servers and got at least
  one contact returns \<^verbatim>\<open>True\<close>, whatever the calls of \<open>create_birthday_event\<close>
  returned: the loop goes through every contact in turn, those after a failed one too,
  and a failed call leaves the calendar as it was. A pass that got no contact at all
  returns \<^verbatim>\<open>False\<close> and writes nothing: the program has a guard for that case.
  So does a pass that could not connect to one of the servers.
\<close>

theorem pass_succeeds_despite_contact_failures:
  "(contacts \<noteq> [] \<longrightarrow>
      main_sync pl (Inr contacts) (Inr cfg) cal yr =
        (True, snd (sync_contacts pl cfg yr contacts (0, cal)))) \<and>
   sync_contacts pl cfg yr (before @ c # after) st =
     sync_contacts pl cfg yr after (sync_contacts pl cfg yr [c] (sync_contacts pl cfg yr before st)) \<and>
   (fst (create_birthday_event pl cfg cal c yr) = Failed e \<longrightarrow>
      snd (create_birthday_event pl cfg cal c yr) = cal) \<and>
   main_sync pl (Inr []) (Inr cfg) cal yr = (False, cal) \<and>
   main_sync pl (Inl e) caldav cal yr = (False, cal) \<and>
   main_sync pl cardav (Inl e) cal yr = (False, cal)"
proof -
  have "sync_contacts pl cfg yr (before @ [c] @ after) st =
     sync_contacts pl cfg yr after (sync_contacts pl cfg yr [c] (sync_contacts pl cfg yr before st))"
    by (simp only: sync_contacts_append)
  then show ?thesis
    using failed_leaves_calendar [of pl cfg cal c yr e]
    by (simp add: main_sync_def split: sum.splits)
qed

text \<open>
  The theorem at work: the contact born on 29 February fails for 2025 and for 2026, Bob
  after it gets his event in the call for 2025 (the call for 2026 finds the yearly
  instance of that event and has nothing to update), and the pass returns \<^verbatim>\<open>True\<close>.
\<close>

theorem pass_succeeds_despite_contact_failures_witness:
  "fst (create_birthday_event example_platform ascii_title_config [] leap_day_contact 2025) =
     Failed ValueError \<and>
   snd (create_birthday_event example_platform ascii_title_config [] leap_day_contact 2025) = [] \<and>
   fst (main_sync example_platform (Inr [leap_day_contact, bob]) (Inr ascii_title_config) [] 2025) =
     True \<and>
   map uid (snd (main_sync example_platform (Inr [leap_day_contact, bob]) (Inr ascii_title_config)
                   [] 2025)) =
     [Some ''birthday-bob-20250615'']"
proof -
  have f: "fst (create_birthday_event example_platform ascii_title_config [] leap_day_contact 2025) =
             Failed ValueError"
    by code_simp
  have u: "map uid (snd (sync_contacts example_platform ascii_title_config 2025 [leap_day_contact, bob]
                           (0, []))) =
     [Some ''birthday-bob-20250615'']"
    by code_simp
  from pass_succeeds_despite_contact_failures
         [of "[leap_day_contact, bob]" example_platform ascii_title_config "[]" 2025 "[]"
            leap_day_contact "[bob]" "(0, [])" ValueError]
    f u
  show ?thesis by simp
qed

text \<open>
  Claim C3 as it is stated fails for the empty sequence: with both servers reached and no
  contact returned, the pass reports failure.
\<close>

theorem empty_pass_counterexample:
  "\<not> fst (main_sync example_platform (Inr []) (Inr default_config) [] 2025)"
  by (simp add: main_sync_def)

section \<open>The scheduler\<close>

lemma perform_sync_state:
  "snd (perform_sync sf df s diagnostic now) =
     (if \<not> diagnostic \<and> sf = Inr True then s\<lparr>last_sync := Some now\<rparr> else s)"
  by (auto simp: perform_sync_def split: sum.splits)

lemma should_sync_interval_stays_due:
  assumes "should_sync_interval s now = Inr True" and "now \<le> later"
  shows "should_sync_interval s later = Inr True"
  using assms
  by (auto simp: should_sync_interval_def split: if_splits option.splits sum.splits)

text \<open>
  Claim C7. For a cron expression that the library rejects, the due check of a tick does
  not raise: it returns \<^verbatim>\<open>False\<close>, which is what comparing a next fire time of one hour
  after the current time with the current time gives; and \<open>next_sync_time\<close> is that
  time, one hour after the current time.
\<close>

theorem invalid_cron_fallback:
  assumes "cron schedule (now1 - minutes 1) = Inl e" and "cron schedule now1 = Inl e'"
  shows "should_sync_cron cron schedule now1 now2 = False \<and>
         next_sync_time cron schedule now1 now2 = now2 + hours 1 \<and>
         should_sync_cron cron schedule now1 now2 = (next_sync_time cron schedule now1 now2 \<le> now2)"
  using assms by (simp add: should_sync_cron_def next_sync_time_def hours_def)

theorem invalid_cron_fallback_witness:
  "hourly_cron ''every hour'' (hours 6 - minutes 1) = Inl ValueError \<and>
   hourly_cron ''every hour'' (hours 6) = Inl ValueError \<and>
   should_sync_cron hourly_cron ''every hour'' (hours 6) (hours 6) = False \<and>
   next_sync_time hourly_cron ''every hour'' (hours 6) (hours 6) = hours 7"
  using invalid_cron_fallback [of hourly_cron "''every hour''" "hours 6" ValueError ValueError "hours 6"]
  by (simp add: hourly_cron_def hours_def minutes_def)

text \<open>
  Claim C10. \<open>perform_sync\<close> changes nothing of the scheduler but \<open>last_sync\<close>, and
  that only when the run is not a diagnostic and the sync function returned \<^verbatim>\<open>True\<close>.
  A diagnostic, a sync that returned \<^verbatim>\<open>False\<close> and a sync that raised leave
  \<open>last_sync\<close> as it was, hence the interval check too: a sync that was due and failed
  is due at every later reading of the clock.
\<close>

theorem last_sync_written_only_on_success:
  "snd (perform_sync sf df s diagnostic now) =
     (if \<not> diagnostic \<and> sf = Inr True then s\<lparr>last_sync := Some now\<rparr> else s) \<and>
   ((diagnostic \<or> sf \<noteq> Inr True) \<longrightarrow>
      last_sync (snd (perform_sync sf df s diagnostic now)) = last_sync s \<and>
      (\<forall>t. should_sync_interval (snd (perform_sync sf df s diagnostic now)) t =
           should_sync_interval s t)) \<and>
   ((diagnostic \<or> sf \<noteq> Inr True) \<and> should_sync_interval s now = Inr True \<and> now \<le> later \<longrightarrow>
      should_sync_interval (snd (perform_sync sf df s diagnostic now)) later = Inr True)"
  using should_sync_interval_stays_due [of s now later]
  by (auto simp: perform_sync_state)

theorem last_sync_written_only_on_success_witness:
  "should_sync_interval example_scheduler (hours 5) = Inr True \<and>
   last_sync (snd (perform_sync (Inr False) (Inr True) example_scheduler False (hours 5))) = Some 0 \<and>
   last_sync (snd (perform_sync (Inl OverflowError) (Inr True) example_scheduler False (hours 5))) = Some 0 \<and>
   last_sync (snd (perform_sync (Inr True) (Inr True) example_scheduler True (hours 5))) = Some 0 \<and>
   should_sync_interval (snd (perform_sync (Inr False) (Inr True) example_scheduler False (hours 5)))
     (hours 5 + minutes 1) = Inr True \<and>
   last_sync (snd (perform_sync (Inr True) (Inr True) example_scheduler False (hours 5))) = Some (hours 5)"
  using
    last_sync_written_only_on_success
      [of "Inr False" "Inr True" example_scheduler False "hours 5" "hours 5 + minutes 1"]
    last_sync_written_only_on_success
      [of "Inl OverflowError" "Inr True" example_scheduler False "hours 5" "hours 5 + minutes 1"]
    last_sync_written_only_on_success
      [of "Inr True" "Inr True" example_scheduler True "hours 5" "hours 5 + minutes 1"]
    last_sync_written_only_on_success
      [of "Inr True" "Inr True" example_scheduler False "hours 5" "hours 5 + minutes 1"]
  by (simp add: example_scheduler_def should_sync_interval_def timedelta_hours_def hours_def minutes_def)

end
